theory Spec2Isabelle
  imports Complex_Main
begin

section \<open>Python values\<close>

text \<open>
  The SDK handles the values that \<^verbatim>\<open>response.json()\<close> returns: Python's \<^verbatim>\<open>None\<close>,
  booleans, numbers, strings, lists and dicts. \<open>JNull\<close> is \<^verbatim>\<open>None\<close>. A dict is an
  association list read with \<open>map_of\<close> (the first binding of a key is the dict's value
  for it). A float is carried as a rational: the client only passes floats through and
  tests them for truth.
\<close>

datatype json =
    JNull
  | JBool bool
  | JInt int
  | JFloat rat
  | JStr string
  | JArr "json list"
  | JObj "(string \<times> json) list"

text \<open>Python's truth value of an object (\<^verbatim>\<open>if x:\<close>).\<close>

fun truthy :: "json \<Rightarrow> bool" where
  "truthy JNull = False"
| "truthy (JBool b) = b"
| "truthy (JInt i) = (i \<noteq> 0)"
| "truthy (JFloat f) = (f \<noteq> 0)"
| "truthy (JStr s) = (s \<noteq> [])"
| "truthy (JArr xs) = (xs \<noteq> [])"
| "truthy (JObj kvs) = (kvs \<noteq> [])"

text \<open>\<^verbatim>\<open>d.get(k, default)\<close> and \<^verbatim>\<open>d.get(k)\<close> on a dict.\<close>

definition get_or :: "(string \<times> json) list \<Rightarrow> string \<Rightarrow> json \<Rightarrow> json" where
  "get_or kvs k d = (case map_of kvs k of None \<Rightarrow> d | Some v \<Rightarrow> v)"

definition get_none :: "(string \<times> json) list \<Rightarrow> string \<Rightarrow> json" where
  "get_none kvs k = get_or kvs k JNull"

text \<open>\<^verbatim>\<open>str(n)\<close> for an int, as the f-string \<^verbatim>\<open>f"API error: {status}"\<close> uses it.\<close>

definition digit :: "nat \<Rightarrow> char" where
  "digit d =
     (if d = 0 then CHR ''0'' else if d = 1 then CHR ''1'' else if d = 2 then CHR ''2''
      else if d = 3 then CHR ''3'' else if d = 4 then CHR ''4'' else if d = 5 then CHR ''5''
      else if d = 6 then CHR ''6'' else if d = 7 then CHR ''7'' else if d = 8 then CHR ''8''
      else CHR ''9'')"

fun str_nat :: "nat \<Rightarrow> string" where
  "str_nat n = (if n < 10 then [digit n] else str_nat (n div 10) @ [digit (n mod 10)])"

declare str_nat.simps [simp del]

definition str_int :: "int \<Rightarrow> string" where
  "str_int i = (if i < 0 then CHR ''-'' # str_nat (nat (- i)) else str_nat (nat i))"

section \<open>Errors\<close>

text \<open>
  Every exception the modelled code raises is a value. \<open>SolvrError message status code\<close>
  is \<^verbatim>\<open>SolvrError(message, status, code)\<close> of \<^verbatim>\<open>types.py\<close>;
  \<open>RequestException\<close> stands for \<^verbatim>\<open>requests.exceptions.RequestException\<close> and its
  subclasses (the string names the instance); \<open>PyException\<close> is the plain
  \<^verbatim>\<open>Exception(msg)\<close>.
\<close>

datatype error =
    SolvrError json int json
  | RequestException string
  | PyException string
  | OverflowError
  | KeyError string
  | TypeError
  | AttributeError
  | ValueError string
  | FileNotFoundError string
  | SystemExit int

section \<open>The HTTP client: \<^verbatim>\<open>Solvr._request\<close>\<close>

record solvr =
  api_key :: string
  base_url :: string
  timeout :: int
  retries :: int
  debug :: bool

definition DEFAULT_BASE_URL :: string where
  "DEFAULT_BASE_URL = ''https://api.solvr.dev''"

definition DEFAULT_TIMEOUT :: int where
  "DEFAULT_TIMEOUT = 30"

definition DEFAULT_RETRIES :: int where
  "DEFAULT_RETRIES = 3"

text \<open>\<^verbatim>\<open>base_url.rstrip("/")\<close>.\<close>

definition rstrip_slash :: "string \<Rightarrow> string" where
  "rstrip_slash s = rev (dropWhile (\<lambda>c. c = CHR ''/'') (rev s))"

text \<open>\<^verbatim>\<open>Solvr.__init__\<close>; configuring the logger under \<^verbatim>\<open>debug\<close> is not modelled.\<close>

definition solvr_init :: "string \<Rightarrow> string \<Rightarrow> int \<Rightarrow> int \<Rightarrow> bool \<Rightarrow> error + solvr" where
  "solvr_init key url tmo n dbg =
     (if key = [] then Inl (ValueError ''API key is required'')
      else Inr \<lparr>api_key = key, base_url = rstrip_slash url, timeout = tmo, retries = n,
                debug = dbg\<rparr>)"

text \<open>
  What \<^verbatim>\<open>requests.request\<close> is called with, and what it gives back. A response carries
  its status code and what \<^verbatim>\<open>response.json()\<close> yields: \<open>None\<close> when the body is not
  JSON (the call then raises).
\<close>

record http_request =
  http_method :: string
  url :: string
  headers :: "(string \<times> string) list"
  json_arg :: "json option"
  timeout_arg :: int

record response =
  status_code :: int
  json_body :: "json option"

datatype outcome =
    Failure string
  | Response response

text \<open>
  \<^verbatim>\<open>response.ok\<close> of the requests library: true unless \<^verbatim>\<open>raise_for_status()\<close> would
  raise, which it does for a status from 400 to 599.
\<close>

definition ok :: "response \<Rightarrow> bool" where
  "ok r = (\<not> (400 \<le> status_code r \<and> status_code r < 600))"

text \<open>
  The network answers the n-th call of \<^verbatim>\<open>requests.request\<close> (counted from 1) for a
  given request. The world records how many calls were made and every
  \<^verbatim>\<open>time.sleep(delay)\<close>, in order.
\<close>

type_synonym network = "http_request \<Rightarrow> nat \<Rightarrow> outcome"

record world =
  calls :: nat
  slept :: "rat list"

definition world0 :: world where
  "world0 = \<lparr>calls = 0, slept = []\<rparr>"

text \<open>
  Lines 320 to 328: the message and code of a failed response.
  \<^verbatim>\<open>error_data.get\<close> and \<^verbatim>\<open>error_info.get\<close> raise \<^verbatim>\<open>AttributeError\<close> on anything but a
  dict, and \<^verbatim>\<open>response.json()\<close> raises on a body that is not JSON; the
  \<^verbatim>\<open>except Exception\<close> turns each into the generic message and no code.
\<close>

definition generic_message :: "int \<Rightarrow> json" where
  "generic_message status = JStr (''API error: '' @ str_int status)"

definition parse_error_body :: "int \<Rightarrow> json option \<Rightarrow> json \<times> json" where
  "parse_error_body status b =
     (case b of
        None \<Rightarrow> (generic_message status, JNull)
      | Some (JObj error_data) \<Rightarrow>
          (case get_or error_data ''error'' (JObj []) of
             JObj error_info \<Rightarrow>
               (get_or error_info ''message'' (generic_message status),
                get_none error_info ''code'')
           | _ \<Rightarrow> (generic_message status, JNull))
      | Some _ \<Rightarrow> (generic_message status, JNull))"

text \<open>
  \<^verbatim>\<open>delay = min(0.1 * (2 ** (attempts - 1)), 5)\<close>. The power is an exact Python int;
  the product with the float \<^verbatim>\<open>0.1\<close> first converts it to a double, and Python raises
  \<^verbatim>\<open>OverflowError\<close> ("int too large to convert to float") once the int reaches
  \<^verbatim>\<open>2 ** 1024\<close>. Below that the product is the double \<^verbatim>\<open>0.1\<close> scaled by a power of two,
  written here as the rational it stands for.
\<close>

definition backoff :: "nat \<Rightarrow> error + rat" where
  "backoff attempts =
     (if 1024 \<le> attempts - 1 then Inl OverflowError
      else Inr (min (1 / 10 * 2 ^ (attempts - 1)) 5))"

text \<open>How one pass through the body of the \<^verbatim>\<open>while\<close> loop ends.\<close>

datatype flow =
    Return json
  | Raise error
  | Continue rat

text \<open>
  The handler \<^verbatim>\<open>except requests.exceptions.RequestException as e\<close> (lines 348 to 356),
  giving the new \<^verbatim>\<open>last_error\<close> and how the pass ends.
\<close>

definition except_RequestException :: "int \<Rightarrow> nat \<Rightarrow> error \<Rightarrow> error option \<times> flow" where
  "except_RequestException n attempts e =
     (if int attempts < n then
        (case backoff attempts of
           Inl err \<Rightarrow> (Some e, Raise err)
         | Inr delay \<Rightarrow> (Some e, Continue delay))
      else (Some e, Raise e))"

text \<open>
  The \<^verbatim>\<open>try\<close> statement of lines 305 to 356 for the outcome of this pass's
  \<^verbatim>\<open>requests.request\<close>. \<^verbatim>\<open>attempts\<close> is already incremented. On a response that is
  \<^verbatim>\<open>ok\<close>, \<^verbatim>\<open>return response.json()\<close> raises requests' \<^verbatim>\<open>JSONDecodeError\<close> when the
  body is not JSON; that class derives from \<^verbatim>\<open>RequestException\<close> (requests 2.27 and
  later), so the same handler takes it. The debug log line has no effect on the result.
\<close>

definition attempt :: "int \<Rightarrow> nat \<Rightarrow> error option \<Rightarrow> outcome \<Rightarrow> error option \<times> flow" where
  "attempt n attempts last_error out =
     (case out of
        Failure e \<Rightarrow> except_RequestException n attempts (RequestException e)
      | Response r \<Rightarrow>
          if \<not> ok r then
            (let status = status_code r;
                 (message, code) = parse_error_body status (json_body r)
             in if 400 \<le> status \<and> status < 500 then
                  (last_error, Raise (SolvrError message status code))
                else if int attempts < n then
                  (case backoff attempts of
                     Inl err \<Rightarrow> (Some (SolvrError message status code), Raise err)
                   | Inr delay \<Rightarrow> (Some (SolvrError message status code), Continue delay))
                else (Some (SolvrError message status code),
                      Raise (SolvrError message status code)))
          else
            (case json_body r of
               Some j \<Rightarrow> (last_error, Return j)
             | None \<Rightarrow>
                 except_RequestException n attempts (RequestException ''JSONDecodeError'')))"

text \<open>
  The loop of lines 299 to 358: \<^verbatim>\<open>while attempts < self._retries\<close>, then
  \<^verbatim>\<open>raise last_error or Exception("Request failed after retries")\<close>.
\<close>

function request_loop ::
  "int \<Rightarrow> (nat \<Rightarrow> outcome) \<Rightarrow> nat \<Rightarrow> error option \<Rightarrow> world \<Rightarrow> (error + json) \<times> world"
where
  "request_loop n net attempts last_error w =
     (if int attempts < n then
        (let attempts' = attempts + 1;
             out = net (Suc (calls w));
             w' = w\<lparr>calls := Suc (calls w)\<rparr>
         in case attempt n attempts' last_error out of
              (le, Return j) \<Rightarrow> (Inr j, w')
            | (le, Raise e) \<Rightarrow> (Inl e, w')
            | (le, Continue delay) \<Rightarrow>
                request_loop n net attempts' le (w'\<lparr>slept := slept w' @ [delay]\<rparr>))
      else
        (Inl (case last_error of
                Some e \<Rightarrow> e
              | None \<Rightarrow> PyException ''Request failed after retries''), w))"
  by pat_completeness auto
termination
  by (relation "measure (\<lambda>(n, net, attempts, last_error, w). nat (n - int attempts))") auto

declare request_loop.simps [simp del]

text \<open>\<^verbatim>\<open>Solvr._request(method, endpoint, json)\<close>.\<close>

definition build_request :: "solvr \<Rightarrow> string \<Rightarrow> string \<Rightarrow> json option \<Rightarrow> http_request" where
  "build_request self method endpoint js =
     \<lparr>http_method = method,
      url = base_url self @ endpoint,
      headers = [(''Authorization'', ''Bearer '' @ api_key self),
                 (''Content-Type'', ''application/json'')],
      json_arg = js,
      timeout_arg = timeout self\<rparr>"

definition request ::
  "solvr \<Rightarrow> network \<Rightarrow> string \<Rightarrow> string \<Rightarrow> json option \<Rightarrow> (error + json) \<times> world"
where
  "request self net method endpoint js =
     request_loop (retries self) (net (build_request self method endpoint js)) 0 None world0"

section \<open>The SDK's public methods and response parsers\<close>

text \<open>The enumerations of \<^verbatim>\<open>types.py\<close> (\<^verbatim>\<open>class PostType(str, Enum)\<close>) with their values
  and member names.\<close>

datatype PostType = PROBLEM | QUESTION | IDEA

datatype PostStatus = OPEN | ACTIVE | SOLVED | STUCK | ANSWERED

fun PostType_value :: "PostType \<Rightarrow> string" where
  "PostType_value PROBLEM = ''problem''"
| "PostType_value QUESTION = ''question''"
| "PostType_value IDEA = ''idea''"

fun PostType_name :: "PostType \<Rightarrow> string" where
  "PostType_name PROBLEM = ''PROBLEM''"
| "PostType_name QUESTION = ''QUESTION''"
| "PostType_name IDEA = ''IDEA''"

fun PostStatus_value :: "PostStatus \<Rightarrow> string" where
  "PostStatus_value OPEN = ''open''"
| "PostStatus_value ACTIVE = ''active''"
| "PostStatus_value SOLVED = ''solved''"
| "PostStatus_value STUCK = ''stuck''"
| "PostStatus_value ANSWERED = ''answered''"

text \<open>An argument of type \<^verbatim>\<open>Union[str, E]\<close>.\<close>

datatype 'e str_or_enum = Str string | Enum 'e

text \<open>
  \<^verbatim>\<open>if type and str(type) != "all"\<close>: a member of a \<^verbatim>\<open>str\<close>-mixed enumeration is true
  when its value is not empty, and \<^verbatim>\<open>str\<close> of it is \<^verbatim>\<open>Enum.__str__\<close>, the class and
  member name.
\<close>

definition type_truthy :: "PostType str_or_enum \<Rightarrow> bool" where
  "type_truthy t = (case t of Str s \<Rightarrow> s \<noteq> [] | Enum e \<Rightarrow> PostType_value e \<noteq> [])"

definition type_str :: "PostType str_or_enum \<Rightarrow> string" where
  "type_str t = (case t of Str s \<Rightarrow> s | Enum e \<Rightarrow> ''PostType.'' @ PostType_name e)"

text \<open>\<^verbatim>\<open>str(type.value if isinstance(type, PostType) else type)\<close>, and the same for status.\<close>

definition type_param :: "PostType str_or_enum \<Rightarrow> string" where
  "type_param t = (case t of Str s \<Rightarrow> s | Enum e \<Rightarrow> PostType_value e)"

definition status_truthy :: "PostStatus str_or_enum \<Rightarrow> bool" where
  "status_truthy t = (case t of Str s \<Rightarrow> s \<noteq> [] | Enum e \<Rightarrow> PostStatus_value e \<noteq> [])"

definition status_param :: "PostStatus str_or_enum \<Rightarrow> string" where
  "status_param t = (case t of Str s \<Rightarrow> s | Enum e \<Rightarrow> PostStatus_value e)"

text \<open>
  The \<^verbatim>\<open>params\<close> dict of \<^verbatim>\<open>Solvr.search\<close> (lines 110 to 119), in insertion order.
  An optional argument left out is \<open>None\<close>.
\<close>

definition search_params ::
  "string \<Rightarrow> PostType str_or_enum option \<Rightarrow> PostStatus str_or_enum option \<Rightarrow>
   int option \<Rightarrow> int option \<Rightarrow> (string \<times> json) list"
where
  "search_params query ty st limit page =
     [(''q'', JStr query)]
     @ (case ty of
          Some t \<Rightarrow> if type_truthy t \<and> type_str t \<noteq> ''all''
                    then [(''type'', JStr (type_param t))] else []
        | None \<Rightarrow> [])
     @ (case st of
          Some s \<Rightarrow> if status_truthy s then [(''status'', JStr (status_param s))] else []
        | None \<Rightarrow> [])
     @ (case limit of
          Some l \<Rightarrow> if l \<noteq> 0 then [(''per_page'', JInt l)] else []
        | None \<Rightarrow> [])
     @ (case page of
          Some p \<Rightarrow> if p \<noteq> 0 then [(''page'', JInt p)] else []
        | None \<Rightarrow> [])"

text \<open>
  \<^verbatim>\<open>urllib.parse.urlencode\<close> on a dict of strings and ints: each key and \<^verbatim>\<open>str(value)\<close>
  goes through \<^verbatim>\<open>quote_plus\<close>, which keeps letters, digits and \<^verbatim>\<open>_.-~\<close>, writes a space
  as \<^verbatim>\<open>+\<close> and any other byte as \<^verbatim>\<open>%XX\<close>. A string is its UTF-8 bytes.
\<close>

definition hex_digit :: "nat \<Rightarrow> char" where
  "hex_digit d =
     (if d < 10 then digit d
      else if d = 10 then CHR ''A'' else if d = 11 then CHR ''B'' else if d = 12 then CHR ''C''
      else if d = 13 then CHR ''D'' else if d = 14 then CHR ''E'' else CHR ''F'')"

definition always_safe :: "char \<Rightarrow> bool" where
  "always_safe c =
     (let k = (of_char c :: nat)
      in (65 \<le> k \<and> k \<le> 90) \<or> (97 \<le> k \<and> k \<le> 122) \<or> (48 \<le> k \<and> k \<le> 57)
         \<or> c = CHR ''_'' \<or> c = CHR ''.'' \<or> c = CHR ''-'' \<or> c = CHR ''~'')"

definition quote_char :: "char \<Rightarrow> string" where
  "quote_char c =
     (if always_safe c then [c]
      else if c = CHR '' '' then ''+''
      else [CHR ''%'', hex_digit ((of_char c :: nat) div 16),
            hex_digit ((of_char c :: nat) mod 16)])"

definition quote_plus :: "string \<Rightarrow> string" where
  "quote_plus s = concat (map quote_char s)"

fun param_str :: "json \<Rightarrow> string" where
  "param_str (JStr s) = s"
| "param_str (JInt i) = str_int i"
| "param_str _ = []"

fun join_amp :: "string list \<Rightarrow> string" where
  "join_amp [] = []"
| "join_amp [x] = x"
| "join_amp (x # y # zs) = x @ ''&'' @ join_amp (y # zs)"

definition urlencode :: "(string \<times> json) list \<Rightarrow> string" where
  "urlencode params =
     join_amp (map (\<lambda>(k, v). quote_plus k @ ''='' @ quote_plus (param_str v)) params)"

definition search_endpoint ::
  "string \<Rightarrow> PostType str_or_enum option \<Rightarrow> PostStatus str_or_enum option \<Rightarrow>
   int option \<Rightarrow> int option \<Rightarrow> string"
where
  "search_endpoint query ty st limit page =
     ''/v1/search?'' @ urlencode (search_params query ty st limit page)"

text \<open>Sequencing of computations that may raise.\<close>

definition and_then :: "error + 'a \<Rightarrow> ('a \<Rightarrow> error + 'b) \<Rightarrow> error + 'b" where
  "and_then m f = (case m of Inl e \<Rightarrow> Inl e | Inr x \<Rightarrow> f x)"

fun map_err :: "('a \<Rightarrow> error + 'b) \<Rightarrow> 'a list \<Rightarrow> error + 'b list" where
  "map_err f [] = Inr []"
| "map_err f (x # xs) =
     and_then (f x) (\<lambda>y. and_then (map_err f xs) (\<lambda>ys. Inr (y # ys)))"

text \<open>
  \<^verbatim>\<open>data[k]\<close>, \<^verbatim>\<open>data.get(k, default)\<close> and \<^verbatim>\<open>for a in data\<close> on an arbitrary value:
  subscripting anything but a dict with a string raises \<^verbatim>\<open>TypeError\<close>, \<^verbatim>\<open>.get\<close> on
  anything but a dict raises \<^verbatim>\<open>AttributeError\<close>, a string iterates over its
  characters and a dict over its keys.
\<close>

definition subscript :: "json \<Rightarrow> string \<Rightarrow> error + json" where
  "subscript d k =
     (case d of
        JObj kvs \<Rightarrow> (case map_of kvs k of None \<Rightarrow> Inl (KeyError k) | Some v \<Rightarrow> Inr v)
      | _ \<Rightarrow> Inl TypeError)"

definition dict_get :: "json \<Rightarrow> string \<Rightarrow> json \<Rightarrow> error + json" where
  "dict_get d k dflt =
     (case d of JObj kvs \<Rightarrow> Inr (get_or kvs k dflt) | _ \<Rightarrow> Inl AttributeError)"

definition iterate :: "json \<Rightarrow> error + json list" where
  "iterate v =
     (case v of
        JArr xs \<Rightarrow> Inr xs
      | JStr s \<Rightarrow> Inr (map (\<lambda>c. JStr [c]) s)
      | JObj kvs \<Rightarrow> Inr (map (\<lambda>(k, _). JStr k) kvs)
      | _ \<Rightarrow> Inl TypeError)"

text \<open>
  The dataclasses of \<^verbatim>\<open>types.py\<close>. Field names carry the record's initials
  (\<open>po_id\<close> is \<^verbatim>\<open>Post.id\<close>, \<open>ap_post_id\<close> is \<^verbatim>\<open>Approach.post_id\<close>). The parsers check no
  types, so a field holds whatever value the response had.
\<close>

record author =
  au_id :: json
  au_type :: json
  au_display_name :: json
  au_avatar_url :: json

record approach =
  ap_id :: json
  ap_post_id :: json
  ap_angle :: json
  ap_content :: json
  ap_status :: json
  ap_upvotes :: json
  ap_downvotes :: json
  ap_created_at :: json
  ap_updated_at :: json
  ap_method :: json
  ap_assumptions :: json
  ap_author :: "author option"

record answer =
  an_id :: json
  an_post_id :: json
  an_content :: json
  an_is_accepted :: json
  an_upvotes :: json
  an_downvotes :: json
  an_created_at :: json
  an_updated_at :: json
  an_author :: "author option"

record comment =
  co_id :: json
  co_target_type :: json
  co_target_id :: json
  co_content :: json
  co_created_at :: json
  co_author :: "author option"

record post =
  po_id :: json
  po_type :: json
  po_title :: json
  po_description :: json
  po_status :: json
  po_upvotes :: json
  po_downvotes :: json
  po_view_count :: json
  po_created_at :: json
  po_updated_at :: json
  po_tags :: json
  po_author :: "author option"
  po_success_criteria :: json
  po_accepted_answer_id :: json
  po_approaches :: "approach list option"
  po_answers :: "answer list option"
  po_comments :: "comment list option"

text \<open>\<^verbatim>\<open>Solvr._parse_author\<close> (lines 442 to 451).\<close>

definition parse_author :: "json \<Rightarrow> error + author option" where
  "parse_author data =
     (if \<not> truthy data then Inr None
      else
        and_then (subscript data ''id'') (\<lambda>i.
        and_then (subscript data ''type'') (\<lambda>t.
        and_then (subscript data ''display_name'') (\<lambda>n.
        and_then (dict_get data ''avatar_url'' JNull) (\<lambda>a.
        Inr (Some \<lparr>au_id = i, au_type = t, au_display_name = n, au_avatar_url = a\<rparr>))))))"

text \<open>\<^verbatim>\<open>self._parse_author(data.get("author")) if data.get("author") else None\<close>.\<close>

definition author_field :: "json \<Rightarrow> error + author option" where
  "author_field data =
     and_then (dict_get data ''author'' JNull) (\<lambda>c.
       if truthy c then and_then (dict_get data ''author'' JNull) parse_author
       else Inr None)"

text \<open>\<^verbatim>\<open>Solvr._parse_approach\<close> (lines 411 to 426); the keyword arguments are evaluated
  in the order written.\<close>

definition parse_approach :: "json \<Rightarrow> error + approach" where
  "parse_approach data =
     and_then (subscript data ''id'') (\<lambda>i.
     and_then (dict_get data ''post_id'' (JStr [])) (\<lambda>pid.
     and_then (subscript data ''angle'') (\<lambda>ang.
     and_then (dict_get data ''content'' (JStr [])) (\<lambda>cont.
     and_then (dict_get data ''status'' (JStr ''proposed'')) (\<lambda>st.
     and_then (dict_get data ''upvotes'' (JInt 0)) (\<lambda>up.
     and_then (dict_get data ''downvotes'' (JInt 0)) (\<lambda>down.
     and_then (dict_get data ''created_at'' (JStr [])) (\<lambda>cr.
     and_then (dict_get data ''updated_at'' (JStr [])) (\<lambda>upd.
     and_then (dict_get data ''method'' JNull) (\<lambda>meth.
     and_then (dict_get data ''assumptions'' JNull) (\<lambda>ass.
     and_then (author_field data) (\<lambda>auth.
     Inr \<lparr>ap_id = i, ap_post_id = pid, ap_angle = ang, ap_content = cont, ap_status = st,
          ap_upvotes = up, ap_downvotes = down, ap_created_at = cr, ap_updated_at = upd,
          ap_method = meth, ap_assumptions = ass, ap_author = auth\<rparr>))))))))))))"

text \<open>\<^verbatim>\<open>Solvr._parse_answer\<close> (lines 428 to 440).\<close>

definition parse_answer :: "json \<Rightarrow> error + answer" where
  "parse_answer data =
     and_then (subscript data ''id'') (\<lambda>i.
     and_then (dict_get data ''post_id'' (JStr [])) (\<lambda>pid.
     and_then (subscript data ''content'') (\<lambda>cont.
     and_then (dict_get data ''is_accepted'' (JBool False)) (\<lambda>acc.
     and_then (dict_get data ''upvotes'' (JInt 0)) (\<lambda>up.
     and_then (dict_get data ''downvotes'' (JInt 0)) (\<lambda>down.
     and_then (dict_get data ''created_at'' (JStr [])) (\<lambda>cr.
     and_then (dict_get data ''updated_at'' (JStr [])) (\<lambda>upd.
     and_then (author_field data) (\<lambda>auth.
     Inr \<lparr>an_id = i, an_post_id = pid, an_content = cont, an_is_accepted = acc,
          an_upvotes = up, an_downvotes = down, an_created_at = cr, an_updated_at = upd,
          an_author = auth\<rparr>)))))))))"

text \<open>
  \<^verbatim>\<open>[parse(a) for a in data.get(key, [])] if data.get(key) else None\<close>, as
  \<^verbatim>\<open>_parse_post\<close> writes it for approaches and answers.
\<close>

definition list_field :: "(json \<Rightarrow> error + 'a) \<Rightarrow> json \<Rightarrow> string \<Rightarrow> error + 'a list option" where
  "list_field parse data key =
     and_then (dict_get data key JNull) (\<lambda>c.
       if truthy c then
         and_then (dict_get data key (JArr [])) (\<lambda>v.
         and_then (iterate v) (\<lambda>items.
         and_then (map_err parse items) (\<lambda>parsed. Inr (Some parsed))))
       else Inr None)"

text \<open>\<^verbatim>\<open>Solvr._parse_post\<close> (lines 390 to 409). \<^verbatim>\<open>comments\<close> is not passed to the
  constructor and keeps the dataclass default \<^verbatim>\<open>None\<close>.\<close>

definition parse_post :: "json \<Rightarrow> error + post" where
  "parse_post data =
     and_then (subscript data ''id'') (\<lambda>i.
     and_then (subscript data ''type'') (\<lambda>ty.
     and_then (subscript data ''title'') (\<lambda>ti.
     and_then (subscript data ''description'') (\<lambda>de.
     and_then (dict_get data ''status'' (JStr ''open'')) (\<lambda>st.
     and_then (dict_get data ''upvotes'' (JInt 0)) (\<lambda>up.
     and_then (dict_get data ''downvotes'' (JInt 0)) (\<lambda>down.
     and_then (dict_get data ''view_count'' (JInt 0)) (\<lambda>vc.
     and_then (dict_get data ''created_at'' (JStr [])) (\<lambda>cr.
     and_then (dict_get data ''updated_at'' (JStr [])) (\<lambda>upd.
     and_then (dict_get data ''tags'' JNull) (\<lambda>tg.
     and_then (author_field data) (\<lambda>auth.
     and_then (dict_get data ''success_criteria'' JNull) (\<lambda>sc.
     and_then (dict_get data ''accepted_answer_id'' JNull) (\<lambda>aa.
     and_then (list_field parse_approach data ''approaches'') (\<lambda>apps.
     and_then (list_field parse_answer data ''answers'') (\<lambda>anss.
     Inr \<lparr>po_id = i, po_type = ty, po_title = ti, po_description = de, po_status = st,
          po_upvotes = up, po_downvotes = down, po_view_count = vc, po_created_at = cr,
          po_updated_at = upd, po_tags = tg, po_author = auth, po_success_criteria = sc,
          po_accepted_answer_id = aa, po_approaches = apps, po_answers = anss,
          po_comments = None\<rparr>))))))))))))))))"

text \<open>\<^verbatim>\<open>Solvr.search\<close> up to and including its request (line 121), and \<^verbatim>\<open>Solvr.get\<close>
  without \<^verbatim>\<open>include\<close>.\<close>

definition search_request ::
  "solvr \<Rightarrow> network \<Rightarrow> string \<Rightarrow> PostType str_or_enum option \<Rightarrow>
   PostStatus str_or_enum option \<Rightarrow> int option \<Rightarrow> int option \<Rightarrow> (error + json) \<times> world"
where
  "search_request self net query ty st limit page =
     request self net ''GET'' (search_endpoint query ty st limit page) None"

definition get_post :: "solvr \<Rightarrow> network \<Rightarrow> string \<Rightarrow> (error + post) \<times> world" where
  "get_post self net ident =
     (case request self net ''GET'' (''/v1/posts/'' @ ident) None of
        (Inl e, w) \<Rightarrow> (Inl e, w)
      | (Inr data, w) \<Rightarrow> (and_then (subscript data ''data'') parse_post, w))"

section \<open>The provisioner: \<^verbatim>\<open>infra/provision.py\<close>\<close>

text \<open>
  The state the commands read and change: the provider's servers and registered SSH
  keys, the local files under the SSH directory (path and content), the instance
  directories under \<^verbatim>\<open>INSTANCES_DIR\<close> (directory name and the content of its
  \<^verbatim>\<open>metadata.json\<close>, if written) and the lines printed so far. An instance name is
  taken as one path component.
\<close>

record server =
  srv_id :: int
  srv_name :: string
  srv_ip :: string
  srv_type :: string
  srv_image :: string
  srv_location :: string
  srv_ssh_keys :: "int list"
  srv_labels :: "(string \<times> string) list"
  srv_user_data :: "string option"

record ssh_key =
  key_id :: int
  key_name :: string
  public_key :: string

record metadata =
  md_name :: string
  md_purpose :: string
  md_ip :: string
  md_server_type :: string
  md_location :: string
  md_labels :: "(string \<times> string) list"
  md_ssh_key_path :: string
  md_created_at :: string
  md_hetzner_id :: int

record system =
  servers :: "server list"
  ssh_keys :: "ssh_key list"
  files :: "(string \<times> string) list"
  instances :: "(string \<times> metadata option) list"
  console :: "string list"

text \<open>
  What the surroundings answer during one run: the token in \<^verbatim>\<open>HCLOUD_TOKEN\<close>, the
  token the hcloud CLI's configuration yields (\<open>None\<close> when any step of that lookup
  fails), the directories, the key pair \<^verbatim>\<open>ssh-keygen\<close> writes, the identifiers and
  address the provider assigns, whether the i-th SSH probe succeeds, the clock, and the
  line typed at the confirmation prompt. Provider calls and \<^verbatim>\<open>ssh-keygen\<close> are taken to
  succeed.
\<close>

record host =
  env_token :: "string option"
  cli_token :: "string option"
  ssh_dir :: string
  instances_dir :: string
  keygen_private :: string
  keygen_public :: string
  new_key_id :: int
  new_server_id :: int
  new_server_ip :: string
  ssh_ready :: "nat \<Rightarrow> bool"
  now_iso :: string
  stdin_line :: string

record args =
  arg_name :: string
  arg_purpose :: "string option"
  arg_type :: "string option"
  arg_location :: "string option"
  arg_yes :: bool

text \<open>The printed symbols, as their UTF-8 bytes.\<close>

definition bytes :: "nat list \<Rightarrow> string" where
  "bytes ns = map char_of ns"

definition RULE :: string where
  "RULE = concat (replicate 60 (bytes [226, 149, 144]))"

definition CHECK :: string where
  "CHECK = bytes [226, 156, 147]"

definition KEY :: string where
  "KEY = bytes [240, 159, 148, 145]"

definition OUTBOX :: string where
  "OUTBOX = bytes [240, 159, 147, 164]"

definition DESKTOP :: string where
  "DESKTOP = bytes [240, 159, 150, 165, 239, 184, 143]"

definition HOURGLASS :: string where
  "HOURGLASS = bytes [226, 143, 179]"

definition WARNING :: string where
  "WARNING = bytes [226, 154, 160, 239, 184, 143]"

definition DONE :: string where
  "DONE = bytes [226, 156, 133]"

definition WASTEBASKET :: string where
  "WASTEBASKET = bytes [240, 159, 151, 145, 239, 184, 143]"

definition print :: "string \<Rightarrow> system \<Rightarrow> system" where
  "print line s = s\<lparr>console := console s @ [line]\<rparr>"

definition prints :: "string list \<Rightarrow> system \<Rightarrow> system" where
  "prints ls s = s\<lparr>console := console s @ ls\<rparr>"

text \<open>\<^verbatim>\<open>SERVER_PRESETS\<close>: type, image and labels by purpose.\<close>

record preset =
  preset_type :: string
  preset_image :: string
  preset_labels :: "(string \<times> string) list"

definition SERVER_PRESETS :: "(string \<times> preset) list" where
  "SERVER_PRESETS =
     [(''ipfs'', \<lparr>preset_type = ''cx33'', preset_image = ''ubuntu-24.04'',
                 preset_labels = [(''service'', ''ipfs''), (''component'', ''kubo'')]\<rparr>),
      (''api'', \<lparr>preset_type = ''cx33'', preset_image = ''ubuntu-24.04'',
                preset_labels = [(''service'', ''api''), (''component'', ''solvr'')]\<rparr>),
      (''cluster'', \<lparr>preset_type = ''cx43'', preset_image = ''ubuntu-24.04'',
                    preset_labels = [(''service'', ''ipfs''), (''component'', ''cluster'')]\<rparr>)]"

definition ipfs_preset :: preset where
  "ipfs_preset = \<lparr>preset_type = ''cx33'', preset_image = ''ubuntu-24.04'',
                  preset_labels = [(''service'', ''ipfs''), (''component'', ''kubo'')]\<rparr>"

definition DEFAULT_LOCATION :: string where
  "DEFAULT_LOCATION = ''nbg1''"

text \<open>The boot script \<^verbatim>\<open>CLOUD_INIT_IPFS\<close> is a fixed text; only its identity matters here.\<close>

definition CLOUD_INIT_IPFS :: string where
  "CLOUD_INIT_IPFS = ''#cloud-config''"

text \<open>\<^verbatim>\<open>x or default\<close> on an optional string: \<^verbatim>\<open>None\<close> and the empty string are false.\<close>

definition or_default :: "string option \<Rightarrow> string \<Rightarrow> string" where
  "or_default x d = (case x of None \<Rightarrow> d | Some v \<Rightarrow> if v = [] then d else v)"

text \<open>
  \<^verbatim>\<open>get_client\<close> (lines 75 to 108): the token of the environment, else the CLI's; with
  neither it prints two lines and calls \<^verbatim>\<open>sys.exit(1)\<close>.
\<close>

definition get_client :: "host \<Rightarrow> system \<Rightarrow> (error + string) \<times> system" where
  "get_client h s =
     (let token = (case env_token h of
                     Some t \<Rightarrow> if t = [] then or_default (cli_token h) t else t
                   | None \<Rightarrow> or_default (cli_token h) [])
      in if token = [] then
           (Inl (SystemExit 1),
            prints [''ERROR: HCLOUD_TOKEN not set and no active hcloud context found'',
                    ''Set HCLOUD_TOKEN or run: hcloud context create <name>''] s)
         else (Inr token, s))"

text \<open>\<^verbatim>\<open>client.servers.get_by_name\<close> and \<^verbatim>\<open>client.ssh_keys.get_by_name\<close>.\<close>

definition servers_get_by_name :: "system \<Rightarrow> string \<Rightarrow> server option" where
  "servers_get_by_name s name = find (\<lambda>x. srv_name x = name) (servers s)"

definition ssh_keys_get_by_name :: "system \<Rightarrow> string \<Rightarrow> ssh_key option" where
  "ssh_keys_get_by_name s name = find (\<lambda>k. key_name k = name) (ssh_keys s)"

text \<open>\<^verbatim>\<open>client.servers.delete\<close> and \<^verbatim>\<open>client.ssh_keys.delete\<close>: by the resource's id.\<close>

definition servers_delete :: "server \<Rightarrow> system \<Rightarrow> system" where
  "servers_delete x s = s\<lparr>servers := filter (\<lambda>y. srv_id y \<noteq> srv_id x) (servers s)\<rparr>"

definition ssh_keys_delete :: "ssh_key \<Rightarrow> system \<Rightarrow> system" where
  "ssh_keys_delete k s = s\<lparr>ssh_keys := filter (\<lambda>y. key_id y \<noteq> key_id k) (ssh_keys s)\<rparr>"

text \<open>
  \<^verbatim>\<open>Path.with_suffix(".pub")\<close> on a file name: the part from the last dot on is
  replaced when that dot is neither the first nor the last character, otherwise the
  suffix is appended.
\<close>

definition stem :: "string \<Rightarrow> string" where
  "stem name =
     (if CHR ''.'' \<in> set name then
        (let i = length name - 1 - length (takeWhile (\<lambda>c. c \<noteq> CHR ''.'') (rev name))
         in if 0 < i \<and> i < length name - 1 then take i name else name)
      else name)"

definition exists :: "system \<Rightarrow> string \<Rightarrow> bool" where
  "exists s path = (map_of (files s) path \<noteq> None)"

text \<open>\<^verbatim>\<open>generate_ssh_key\<close> (lines 111 to 127).\<close>

definition generate_ssh_key :: "host \<Rightarrow> string \<Rightarrow> system \<Rightarrow> (error + string \<times> string) \<times> system" where
  "generate_ssh_key h name s =
     (let key_path = ssh_dir h @ ''/solvr_'' @ name;
          pub_path = ssh_dir h @ ''/'' @ stem (''solvr_'' @ name) @ ''.pub'';
          s1 = (if \<not> exists s key_path then
                  (print (KEY @ '' Generating SSH key: '' @ key_path) s)
                    \<lparr>files := (key_path, keygen_private h)
                              # (key_path @ ''.pub'', keygen_public h) # files s\<rparr>
                else print (CHECK @ '' SSH key exists: '' @ key_path) s)
      in case map_of (files s1) pub_path of
           None \<Rightarrow> (Inl (FileNotFoundError pub_path), s1)
         | Some text \<Rightarrow> (Inr (key_path, text), s1))"

text \<open>\<^verbatim>\<open>wait_for_ssh\<close> (lines 130 to 149): probe \<open>i\<close> of \<open>max_retries\<close>, \<open>k\<close> probes left.\<close>

fun wait_for_ssh_loop :: "(nat \<Rightarrow> bool) \<Rightarrow> nat \<Rightarrow> nat \<Rightarrow> nat \<Rightarrow> system \<Rightarrow> bool \<times> system" where
  "wait_for_ssh_loop ready max_retries i 0 s = (False, s)"
| "wait_for_ssh_loop ready max_retries i (Suc k) s =
     (if ready i then (True, print (CHECK @ '' SSH ready'') s)
      else wait_for_ssh_loop ready max_retries (Suc i) k
             (print (''  Retry '' @ str_nat (i + 1) @ ''/'' @ str_nat max_retries @ ''...'') s))"

definition wait_for_ssh :: "host \<Rightarrow> system \<Rightarrow> bool \<times> system" where
  "wait_for_ssh h s =
     wait_for_ssh_loop (ssh_ready h) 10 0 10 (print (HOURGLASS @ '' Waiting for SSH...'') s)"

text \<open>\<^verbatim>\<open>save_metadata\<close> (lines 152 to 160).\<close>

definition save_metadata :: "host \<Rightarrow> string \<Rightarrow> metadata \<Rightarrow> system \<Rightarrow> system" where
  "save_metadata h name data s =
     print (CHECK @ '' Metadata: '' @ instances_dir h @ ''/'' @ name @ ''/metadata.json'')
       (s\<lparr>instances := (name, Some data) # filter (\<lambda>(k, _). k \<noteq> name) (instances s)\<rparr>)"

text \<open>
  \<^verbatim>\<open>cmd_provision\<close> (lines 255 to 350), after \<^verbatim>\<open>get_client\<close>: from the lookup of the
  server name on.
\<close>

definition provision_new ::
  "host \<Rightarrow> string \<Rightarrow> string \<Rightarrow> string \<Rightarrow> string \<Rightarrow> string \<Rightarrow> (string \<times> string) list \<Rightarrow>
   system \<Rightarrow> (error + unit) \<times> system"
where
  "provision_new h name purpose server_type img location labels s =
     (case generate_ssh_key h name s of
        (Inl e, s1) \<Rightarrow> (Inl e, s1)
      | (Inr (ssh_key_path, ssh_pub_key), s1) \<Rightarrow>
          (let ssh_key_name = ''solvr-'' @ name;
               (key, s2) =
                 (case ssh_keys_get_by_name s1 ssh_key_name of
                    Some existing_key \<Rightarrow>
                      (existing_key,
                       print (CHECK @ '' SSH key '' @ [CHR 0x27] @ ssh_key_name @ [CHR 0x27]
                              @ '' exists in Hetzner'') s1)
                  | None \<Rightarrow>
                      (let created = \<lparr>key_id = new_key_id h, key_name = ssh_key_name,
                                      public_key = ssh_pub_key\<rparr>
                       in (created,
                           (print (OUTBOX @ '' Uploading SSH key to Hetzner...'') s1)
                             \<lparr>ssh_keys := ssh_keys s1 @ [created]\<rparr>)));
               user_data = (if purpose = ''ipfs'' then Some CLOUD_INIT_IPFS else None);
               s3 = print (DESKTOP @ ''  Creating server '' @ [CHR 0x27] @ name @ [CHR 0x27]
                           @ ''...'') s2;
               created_server =
                 \<lparr>srv_id = new_server_id h, srv_name = name, srv_ip = new_server_ip h,
                  srv_type = server_type, srv_image = img, srv_location = location,
                  srv_ssh_keys = [key_id key], srv_labels = labels,
                  srv_user_data = user_data\<rparr>;
               s4 = s3\<lparr>servers := servers s3 @ [created_server]\<rparr>;
               ip = srv_ip created_server;
               s5 = prints [CHECK @ '' Server created: '' @ ip,
                            HOURGLASS @ '' Waiting 45s for boot + cloud-init...''] s4;
               (ready, s6) = wait_for_ssh h s5;
               s7 = (if \<not> ready
                     then print (WARNING @ ''  SSH not ready yet, but server is running'') s6
                     else s6);
               data = \<lparr>md_name = name, md_purpose = purpose, md_ip = ip,
                       md_server_type = server_type, md_location = location,
                       md_labels = labels, md_ssh_key_path = ssh_key_path,
                       md_created_at = now_iso h, md_hetzner_id = srv_id created_server\<rparr>;
               s8 = save_metadata h name data s7;
               s9 = prints ([[], RULE, ''  '' @ DONE @ '' Provisioning Complete'', [],
                             ''  Server:  '' @ name,
                             ''  IP:      '' @ ip,
                             ''  SSH:     ssh -i '' @ ssh_key_path @ '' root@'' @ ip,
                             []]
                            @ (if purpose = ''ipfs''
                               then [''  IPFS Status: /opt/solvr/ipfs/status.sh'',
                                     ''  IPFS API:    http://127.0.0.1:5001 (via SSH tunnel)'']
                               else [])
                            @ [RULE]) s8
           in (Inr (), s9)))"

definition cmd_provision :: "host \<Rightarrow> args \<Rightarrow> system \<Rightarrow> (error + unit) \<times> system" where
  "cmd_provision h a s =
     (case get_client h s of
        (Inl e, s0) \<Rightarrow> (Inl e, s0)
      | (Inr client, s0) \<Rightarrow>
          (let name = arg_name a;
               purpose = or_default (arg_purpose a) ''ipfs'';
               location = or_default (arg_location a) DEFAULT_LOCATION;
               preset = (case map_of SERVER_PRESETS purpose of
                           Some p \<Rightarrow> p
                         | None \<Rightarrow> ipfs_preset);
               server_type = or_default (arg_type a) (preset_type preset);
               img = preset_image preset;
               labels = preset_labels preset
                        @ [(''name'', name), (''managed-by'', ''solvr-infra'')];
               s1 = prints [RULE, ''  Provisioning Solvr Node'',
                            ''  Name:     '' @ name,
                            ''  Purpose:  '' @ purpose,
                            ''  Type:     '' @ server_type,
                            ''  Location: '' @ location,
                            RULE, []] s0
           in case servers_get_by_name s1 name of
                Some existing \<Rightarrow>
                  (Inr (),
                   prints [CHECK @ '' Server '' @ [CHR 0x27] @ name @ [CHR 0x27]
                           @ '' already exists'',
                           ''  IP: '' @ srv_ip existing] s1)
              | None \<Rightarrow>
                  provision_new h name purpose server_type img location labels s1))"

text \<open>\<^verbatim>\<open>str.lower\<close> on the ASCII letters, and \<^verbatim>\<open>cmd_destroy\<close> (lines 370 to 400). The
  prompt of \<^verbatim>\<open>input\<close> is written to the console.\<close>

definition lower_char :: "char \<Rightarrow> char" where
  "lower_char c =
     (let k = (of_char c :: nat) in if 65 \<le> k \<and> k \<le> 90 then char_of (k + 32) else c)"

definition lower :: "string \<Rightarrow> string" where
  "lower s = map lower_char s"

definition rmtree :: "string \<Rightarrow> system \<Rightarrow> system" where
  "rmtree name s = s\<lparr>instances := filter (\<lambda>(k, _). k \<noteq> name) (instances s)\<rparr>"

definition destroy_confirmed :: "string \<Rightarrow> server \<Rightarrow> system \<Rightarrow> system" where
  "destroy_confirmed name srv s =
     (let s1 = print (WASTEBASKET @ ''  Destroying server '' @ [CHR 0x27] @ name @ [CHR 0x27]
                      @ ''...'') s;
          s2 = servers_delete srv s1;
          s3 = (if map_of (instances s2) name \<noteq> None then rmtree name s2 else s2);
          s4 = (case ssh_keys_get_by_name s3 (''solvr-'' @ name) of
                  Some k \<Rightarrow> ssh_keys_delete k s3
                | None \<Rightarrow> s3)
      in print (CHECK @ '' Server '' @ [CHR 0x27] @ name @ [CHR 0x27] @ '' destroyed'') s4)"

definition cmd_destroy :: "host \<Rightarrow> args \<Rightarrow> system \<Rightarrow> (error + unit) \<times> system" where
  "cmd_destroy h a s =
     (case get_client h s of
        (Inl e, s0) \<Rightarrow> (Inl e, s0)
      | (Inr client, s0) \<Rightarrow>
          (let name = arg_name a in
           case servers_get_by_name s0 name of
             None \<Rightarrow>
               (Inr (), print (''Server '' @ [CHR 0x27] @ name @ [CHR 0x27] @ '' not found'') s0)
           | Some srv \<Rightarrow>
               if \<not> arg_yes a then
                 (let s1 = print (WARNING @ ''  Destroy server '' @ [CHR 0x27] @ name
                                  @ [CHR 0x27] @ '' ('' @ srv_ip srv @ '')? [y/N] '') s0
                  in if lower (stdin_line h) \<noteq> ''y'' then (Inr (), print ''Cancelled'' s1)
                     else (Inr (), destroy_confirmed name srv s1))
               else (Inr (), destroy_confirmed name srv s0)))"

section \<open>Vocabulary of the properties\<close>

text \<open>A retryable failure as the specification classes it: a transport-level failure, or a
  response of the server-error class (status 500 to 599).\<close>

definition retryable :: "outcome \<Rightarrow> bool" where
  "retryable out =
     (case out of
        Failure e \<Rightarrow> True
      | Response r \<Rightarrow> 500 \<le> status_code r \<and> status_code r < 600)"

text \<open>The error the client holds after an attempt that failed: the transport exception, or
  the \<^verbatim>\<open>SolvrError\<close> built from the response.\<close>

definition observed_error :: "outcome \<Rightarrow> error" where
  "observed_error out =
     (case out of
        Failure e \<Rightarrow> RequestException e
      | Response r \<Rightarrow>
          SolvrError (fst (parse_error_body (status_code r) (json_body r))) (status_code r)
            (snd (parse_error_body (status_code r) (json_body r))))"

text \<open>The delay the specification states between attempt \<open>a\<close> and the next.\<close>

definition delay_after :: "nat \<Rightarrow> rat" where
  "delay_after a = min (1 / 10 * 2 ^ (a - 1)) 5"

text \<open>A body that is not JSON, or JSON without an object under \<^verbatim>\<open>"error"\<close>.\<close>

definition lacks_error_object :: "json option \<Rightarrow> bool" where
  "lacks_error_object b =
     (case b of
        None \<Rightarrow> True
      | Some (JObj error_data) \<Rightarrow>
          (case map_of error_data ''error'' of
             None \<Rightarrow> True
           | Some (JObj error_info) \<Rightarrow> False
           | Some _ \<Rightarrow> True)
      | Some _ \<Rightarrow> True)"

text \<open>The sleep a pass through the loop ends with, when it ends in a retry.\<close>

fun continues :: "flow \<Rightarrow> rat option" where
  "continues (Continue d) = Some d"
| "continues (Return j) = None"
| "continues (Raise e) = None"

text \<open>Worked examples: a client with a given \<^verbatim>\<open>retries\<close>, and networks that answer from a
  list, always the same, or with \<open>k\<close> failures before a success.\<close>

definition client :: "int \<Rightarrow> solvr" where
  "client n = \<lparr>api_key = ''solvr_sk_test_key'', base_url = DEFAULT_BASE_URL,
               timeout = DEFAULT_TIMEOUT, retries = n, debug = False\<rparr>"

definition replay :: "outcome list \<Rightarrow> network" where
  "replay outs req i =
     (if 0 < i \<and> i \<le> length outs then outs ! (i - 1) else Failure ''ConnectionError'')"

definition status_only :: "int \<Rightarrow> outcome" where
  "status_only st = Response \<lparr>status_code = st, json_body = None\<rparr>"

definition always :: "outcome \<Rightarrow> network" where
  "always out req i = out"

definition fails_then :: "nat \<Rightarrow> outcome \<Rightarrow> outcome \<Rightarrow> network" where
  "fails_then k bad good req i = (if i \<le> k then bad else good)"

definition not_found :: outcome where
  "not_found =
     Response \<lparr>status_code = 404,
               json_body = Some (JObj [(''error'', JObj [(''message'', JStr ''Not found''),
                                                       (''code'', JStr ''NOT_FOUND'')])])\<rparr>"

definition empty_page :: json where
  "empty_page =
     JObj [(''data'', JArr []),
           (''meta'', JObj [(''total'', JInt 0), (''page'', JInt 1), (''per_page'', JInt 10)])]"

definition success :: outcome where
  "success = Response \<lparr>status_code = 200, json_body = Some empty_page\<rparr>"

text \<open>A 404 whose body is not JSON.\<close>

definition not_found_page :: response where
  "not_found_page = \<lparr>status_code = 404, json_body = None\<rparr>"

text \<open>Two post objects: one with the four required fields only, one whose author has an
  id and nothing else.\<close>

definition minimal_post :: json where
  "minimal_post =
     JObj [(''id'', JStr ''post_123''), (''type'', JStr ''problem''),
           (''title'', JStr ''Test''), (''description'', JStr ''Test description'')]"

definition post_with_partial_author :: json where
  "post_with_partial_author =
     JObj [(''id'', JStr ''post_123''), (''type'', JStr ''problem''),
           (''title'', JStr ''Test''), (''description'', JStr ''Test description''),
           (''author'', JObj [(''id'', JStr ''user_1'')])]"

text \<open>The shape the parsers need of a response, in the specification's terms: the keys an
  object has, an author that is false or has its three required keys, an approach or
  an answer that has its required keys and such an author, a list field that is false or
  a list of such items; and the record each such value stands for.\<close>

definition has_keys :: "(string \<times> json) list \<Rightarrow> string list \<Rightarrow> bool" where
  "has_keys kvs ks = list_all (\<lambda>k. map_of kvs k \<noteq> None) ks"

definition fields :: "json \<Rightarrow> (string \<times> json) list" where
  "fields v = (case v of JObj a \<Rightarrow> a | _ \<Rightarrow> [])"

definition well_formed_author :: "json \<Rightarrow> bool" where
  "well_formed_author v =
     (if truthy v then
        (case v of JObj a \<Rightarrow> has_keys a [''id'', ''type'', ''display_name''] | _ \<Rightarrow> False)
      else True)"

definition expected_author :: "json \<Rightarrow> author option" where
  "expected_author v =
     (if truthy v then
        Some \<lparr>au_id = get_none (fields v) ''id'', au_type = get_none (fields v) ''type'',
              au_display_name = get_none (fields v) ''display_name'',
              au_avatar_url = get_none (fields v) ''avatar_url''\<rparr>
      else None)"

definition well_formed_approach :: "json \<Rightarrow> bool" where
  "well_formed_approach v =
     (case v of
        JObj a \<Rightarrow> has_keys a [''id'', ''angle''] \<and> well_formed_author (get_none a ''author'')
      | _ \<Rightarrow> False)"

definition expected_approach :: "json \<Rightarrow> approach" where
  "expected_approach v =
     \<lparr>ap_id = get_none (fields v) ''id'',
      ap_post_id = get_or (fields v) ''post_id'' (JStr ''''),
      ap_angle = get_none (fields v) ''angle'',
      ap_content = get_or (fields v) ''content'' (JStr ''''),
      ap_status = get_or (fields v) ''status'' (JStr ''proposed''),
      ap_upvotes = get_or (fields v) ''upvotes'' (JInt 0),
      ap_downvotes = get_or (fields v) ''downvotes'' (JInt 0),
      ap_created_at = get_or (fields v) ''created_at'' (JStr ''''),
      ap_updated_at = get_or (fields v) ''updated_at'' (JStr ''''),
      ap_method = get_none (fields v) ''method'',
      ap_assumptions = get_none (fields v) ''assumptions'',
      ap_author = expected_author (get_none (fields v) ''author'')\<rparr>"

definition well_formed_answer :: "json \<Rightarrow> bool" where
  "well_formed_answer v =
     (case v of
        JObj a \<Rightarrow> has_keys a [''id'', ''content''] \<and> well_formed_author (get_none a ''author'')
      | _ \<Rightarrow> False)"

definition expected_answer :: "json \<Rightarrow> answer" where
  "expected_answer v =
     \<lparr>an_id = get_none (fields v) ''id'',
      an_post_id = get_or (fields v) ''post_id'' (JStr ''''),
      an_content = get_none (fields v) ''content'',
      an_is_accepted = get_or (fields v) ''is_accepted'' (JBool False),
      an_upvotes = get_or (fields v) ''upvotes'' (JInt 0),
      an_downvotes = get_or (fields v) ''downvotes'' (JInt 0),
      an_created_at = get_or (fields v) ''created_at'' (JStr ''''),
      an_updated_at = get_or (fields v) ''updated_at'' (JStr ''''),
      an_author = expected_author (get_none (fields v) ''author'')\<rparr>"

definition well_formed_list :: "(json \<Rightarrow> bool) \<Rightarrow> json \<Rightarrow> bool" where
  "well_formed_list good v =
     (if truthy v then (case v of JArr xs \<Rightarrow> list_all good xs | _ \<Rightarrow> False) else True)"

definition expected_list :: "(json \<Rightarrow> 'a) \<Rightarrow> json \<Rightarrow> 'a list option" where
  "expected_list f v =
     (if truthy v then (case v of JArr xs \<Rightarrow> Some (map f xs) | _ \<Rightarrow> None) else None)"

text \<open>A post with optional and nested values present.\<close>

definition ada :: json where
  "ada = JObj [(''id'', JStr ''user_1''), (''type'', JStr ''human''),
               (''display_name'', JStr ''Ada'')]"

definition rich_post :: json where
  "rich_post =
     JObj [(''id'', JStr ''post_123''), (''type'', JStr ''problem''),
           (''title'', JStr ''Test''), (''description'', JStr ''Test description''),
           (''status'', JStr ''solved''), (''upvotes'', JInt 10),
           (''tags'', JArr [JStr ''typescript'', JStr ''api'']),
           (''author'', ada),
           (''approaches'',
              JArr [JObj [(''id'', JStr ''approach_1''), (''angle'', JStr ''Pool isolation''),
                          (''author'', ada)]]),
           (''answers'',
              JArr [JObj [(''id'', JStr ''answer_1''), (''content'', JStr ''Use errgroup''),
                          (''is_accepted'', JBool True)]])]"

text \<open>A worked example of the provisioner: a host with a token, and a system holding one
  server named \<^verbatim>\<open>node\<close>, its registered key and its instance directory.\<close>

definition ready_at_once :: "nat \<Rightarrow> bool" where
  "ready_at_once i = True"

definition host0 :: host where
  "host0 =
     \<lparr>env_token = Some ''token'', cli_token = None, ssh_dir = ''/home/user/.ssh'',
      instances_dir = ''infra/instances'', keygen_private = ''PRIVATE'',
      keygen_public = ''ssh-ed25519 AAAA solvr-node'', new_key_id = 8, new_server_id = 2,
      new_server_ip = ''10.0.0.2'', ssh_ready = ready_at_once,
      now_iso = ''2024-01-01T00:00:00+00:00'', stdin_line = ''n''\<rparr>"

definition server0 :: server where
  "server0 =
     \<lparr>srv_id = 1, srv_name = ''node'', srv_ip = ''10.0.0.1'', srv_type = ''cx33'',
      srv_image = ''ubuntu-24.04'', srv_location = ''nbg1'', srv_ssh_keys = [7],
      srv_labels = [(''managed-by'', ''solvr-infra'')], srv_user_data = None\<rparr>"

definition key0 :: ssh_key where
  "key0 = \<lparr>key_id = 7, key_name = ''solvr-node'', public_key = ''ssh-ed25519 AAAA solvr-node''\<rparr>"

definition system0 :: system where
  "system0 =
     \<lparr>servers = [server0], ssh_keys = [key0],
      files = [(''/home/user/.ssh/solvr_node'', ''PRIVATE'')],
      instances = [(''node'', None)], console = []\<rparr>"

definition args0 :: args where
  "args0 = \<lparr>arg_name = ''node'', arg_purpose = None, arg_type = None, arg_location = None,
             arg_yes = True\<rparr>"

section \<open>Properties of the HTTP client\<close>

lemma backoff_small: "a \<le> 1024 \<Longrightarrow> backoff a = Inr (delay_after a)"
  by (simp add: backoff_def delay_after_def)

lemma backoff_large: "1025 \<le> a \<Longrightarrow> backoff a = Inl OverflowError"
  by (simp add: backoff_def)

lemma attempt_retryable_continue:
  "retryable out \<Longrightarrow> int a < n \<Longrightarrow> a \<le> 1024 \<Longrightarrow>
   attempt n a le out = (Some (observed_error out), Continue (delay_after a))"
  by (cases out)
     (auto simp: attempt_def retryable_def observed_error_def ok_def
        except_RequestException_def Let_def case_prod_unfold backoff_small
        split: prod.splits)

lemma attempt_retryable_last:
  "retryable out \<Longrightarrow> \<not> int a < n \<Longrightarrow>
   attempt n a le out = (Some (observed_error out), Raise (observed_error out))"
  by (cases out)
     (auto simp: attempt_def retryable_def observed_error_def ok_def
        except_RequestException_def Let_def case_prod_unfold
        split: prod.splits)

lemma attempt_retryable_overflow:
  "retryable out \<Longrightarrow> int a < n \<Longrightarrow> 1025 \<le> a \<Longrightarrow>
   attempt n a le out = (Some (observed_error out), Raise OverflowError)"
  by (cases out)
     (auto simp: attempt_def retryable_def observed_error_def ok_def
        except_RequestException_def Let_def case_prod_unfold backoff_large
        split: prod.splits)

lemma loop_step_continue:
  "int a < n \<Longrightarrow> attempt n (Suc a) le (net (Suc (calls w))) = (le', Continue d) \<Longrightarrow>
   request_loop n net a le w =
     request_loop n net (Suc a) le' \<lparr>calls = Suc (calls w), slept = slept w @ [d]\<rparr>"
  by (subst request_loop.simps) (cases w, simp)

lemma loop_step_raise:
  "int a < n \<Longrightarrow> attempt n (Suc a) le (net (Suc (calls w))) = (le', Raise e) \<Longrightarrow>
   request_loop n net a le w = (Inl e, \<lparr>calls = Suc (calls w), slept = slept w\<rparr>)"
  by (subst request_loop.simps) (cases w, simp)

lemma loop_step_return:
  "int a < n \<Longrightarrow> attempt n (Suc a) le (net (Suc (calls w))) = (le', Return j) \<Longrightarrow>
   request_loop n net a le w = (Inr j, \<lparr>calls = Suc (calls w), slept = slept w\<rparr>)"
  by (subst request_loop.simps) (cases w, simp)

lemma loop_retryable_prefix:
  "(\<forall>i. 0 < i \<and> i \<le> k \<longrightarrow> retryable (net i)) \<Longrightarrow> int k < n \<Longrightarrow> k \<le> 1024 \<Longrightarrow>
   request_loop n net 0 None world0 =
     request_loop n net k (if k = 0 then None else Some (observed_error (net k)))
       \<lparr>calls = k, slept = map delay_after [1..<Suc k]\<rparr>"
proof (induction k)
  case 0
  then show ?case by (simp add: world0_def)
next
  case (Suc k)
  have IH: "request_loop n net 0 None world0 =
     request_loop n net k (if k = 0 then None else Some (observed_error (net k)))
       \<lparr>calls = k, slept = map delay_after [1..<Suc k]\<rparr>"
    using Suc by simp
  have st: "attempt n (Suc k) (if k = 0 then None else Some (observed_error (net k))) (net (Suc k))
      = (Some (observed_error (net (Suc k))), Continue (delay_after (Suc k)))"
    using Suc.prems by (intro attempt_retryable_continue) auto
  have lt: "int k < n" using Suc.prems by simp
  show ?case
    unfolding IH
    using loop_step_continue[OF lt, where w = "\<lparr>calls = k, slept = map delay_after [1..<Suc k]\<rparr>"
         and net = net and le = "if k = 0 then None else Some (observed_error (net k))"] st
    by simp
qed


lemma attempt_4xx:
  "400 \<le> status_code r \<Longrightarrow> status_code r < 500 \<Longrightarrow>
   attempt n a le (Response r) =
     (le, Raise (SolvrError (fst (parse_error_body (status_code r) (json_body r)))
                   (status_code r) (snd (parse_error_body (status_code r) (json_body r)))))"
  by (simp add: attempt_def ok_def Let_def case_prod_unfold)

lemma attempt_success:
  "200 \<le> status_code r \<Longrightarrow> status_code r < 300 \<Longrightarrow> json_body r = Some j \<Longrightarrow>
   attempt n a le (Response r) = (le, Return j)"
  by (simp add: attempt_def ok_def)

lemma parse_error_body_generic:
  "lacks_error_object b \<Longrightarrow> parse_error_body status b = (generic_message status, JNull)"
  by (auto simp: lacks_error_object_def parse_error_body_def get_or_def get_none_def
      split: option.splits json.splits)

lemma parse_error_body_error_object:
  "map_of d ''error'' = Some (JObj info) \<Longrightarrow>
   parse_error_body status (Some (JObj d)) =
     (case map_of info ''message'' of
        Some v \<Rightarrow> v
      | None \<Rightarrow> JStr (''API error: '' @ str_int status),
      case map_of info ''code'' of Some v \<Rightarrow> v | None \<Rightarrow> JNull)"
  by (simp add: parse_error_body_def get_or_def get_none_def generic_message_def
      split: option.splits)

text \<open>C1: when the response to the first attempt has a status in [400,500), whatever the
  configured number of retries (at least one, so that an attempt is made), exactly one
  request is made, nothing sleeps, and \<^verbatim>\<open>_request\<close> raises a \<^verbatim>\<open>SolvrError\<close> carrying that
  status. Its message and code are those of the body's error object (the message
  \<^verbatim>\<open>"API error: {status}"\<close> when the object has none, the code \<^verbatim>\<open>None\<close> when it has none), and
  the generic message and \<^verbatim>\<open>None\<close> when the body has no error object.\<close>

theorem request_4xx_terminal:
  assumes "0 < retries self"
    and "net (build_request self method endpoint js) 1 = Response r"
    and "400 \<le> status_code r" and "status_code r < 500"
  shows "\<exists>message code.
           request self net method endpoint js =
             (Inl (SolvrError message (status_code r) code), \<lparr>calls = 1, slept = []\<rparr>)
           \<and> (\<forall>d info. json_body r = Some (JObj d) \<and> map_of d ''error'' = Some (JObj info) \<longrightarrow>
                  message = (case map_of info ''message'' of
                               Some v \<Rightarrow> v
                             | None \<Rightarrow> JStr (''API error: '' @ str_int (status_code r)))
                  \<and> code = (case map_of info ''code'' of Some v \<Rightarrow> v | None \<Rightarrow> JNull))
           \<and> (lacks_error_object (json_body r) \<longrightarrow>
                  message = JStr (''API error: '' @ str_int (status_code r)) \<and> code = JNull)"
proof -
  let ?p = "parse_error_body (status_code r) (json_body r)"
  have "int 0 < retries self" using assms(1) by simp
  from loop_step_raise[OF this, where w = world0 and le = None
      and net = "net (build_request self method endpoint js)"]
    attempt_4xx[OF assms(3,4)] assms(2)
  have run: "request self net method endpoint js =
      (Inl (SolvrError (fst ?p) (status_code r) (snd ?p)), \<lparr>calls = 1, slept = []\<rparr>)"
    by (simp add: request_def world0_def)
  have obj: "\<forall>d info. json_body r = Some (JObj d) \<and> map_of d ''error'' = Some (JObj info) \<longrightarrow>
      fst ?p = (case map_of info ''message'' of
                  Some v \<Rightarrow> v
                | None \<Rightarrow> JStr (''API error: '' @ str_int (status_code r)))
      \<and> snd ?p = (case map_of info ''code'' of Some v \<Rightarrow> v | None \<Rightarrow> JNull)"
    by (auto simp: parse_error_body_def get_or_def get_none_def generic_message_def
        split: option.splits)
  have gen: "lacks_error_object (json_body r) \<longrightarrow>
      fst ?p = JStr (''API error: '' @ str_int (status_code r)) \<and> snd ?p = JNull"
    by (auto simp: lacks_error_object_def parse_error_body_def get_or_def get_none_def
        generic_message_def split: option.splits json.splits)
  from run obj gen show ?thesis by blast
qed

theorem request_4xx_terminal_witness:
  "0 < retries (client 3) \<and>
   request (client 3) (replay [not_found]) ''GET'' ''/v1/posts/invalid_id'' None =
     (Inl (SolvrError (JStr ''Not found'') 404 (JStr ''NOT_FOUND'')),
      \<lparr>calls = 1, slept = []\<rparr>)"
proof -
  let ?r = "\<lparr>status_code = 404,
             json_body = Some (JObj [(''error'', JObj [(''message'', JStr ''Not found''),
                                                     (''code'', JStr ''NOT_FOUND'')])])\<rparr>"
  have h1: "0 < retries (client 3)" by (simp add: client_def)
  have h2: "replay [not_found] (build_request (client 3) ''GET'' ''/v1/posts/invalid_id'' None) 1
              = Response ?r"
    by (simp add: replay_def not_found_def)
  from request_4xx_terminal[of "client 3" "replay [not_found]" "''GET''"
      "''/v1/posts/invalid_id''" None ?r, OF h1 h2]
  obtain message code where
    run: "request (client 3) (replay [not_found]) ''GET'' ''/v1/posts/invalid_id'' None =
            (Inl (SolvrError message 404 code), \<lparr>calls = 1, slept = []\<rparr>)"
    and obj: "\<forall>d info. json_body ?r = Some (JObj d) \<and> map_of d ''error'' = Some (JObj info) \<longrightarrow>
                message = (case map_of info ''message'' of
                             Some v \<Rightarrow> v
                           | None \<Rightarrow> JStr (''API error: '' @ str_int (status_code ?r)))
                \<and> code = (case map_of info ''code'' of Some v \<Rightarrow> v | None \<Rightarrow> JNull)"
    by auto
  from obj[rule_format, of "[(''error'', JObj [(''message'', JStr ''Not found''),
                                               (''code'', JStr ''NOT_FOUND'')])]"
      "[(''message'', JStr ''Not found''), (''code'', JStr ''NOT_FOUND'')]"]
  have "message = JStr ''Not found''" and "code = JStr ''NOT_FOUND''" by simp_all
  with run h1 show ?thesis by simp
qed

text \<open>C9: with \<^verbatim>\<open>retries \<le> 0\<close> the loop body never runs: no HTTP call is made, nothing
  sleeps, and the generic \<^verbatim>\<open>Exception("Request failed after retries")\<close> is raised,
  not a \<^verbatim>\<open>SolvrError\<close>.\<close>

theorem request_no_retries:
  "retries self \<le> 0 \<Longrightarrow>
   request self net method endpoint js =
     (Inl (PyException ''Request failed after retries''), \<lparr>calls = 0, slept = []\<rparr>)"
  by (simp add: request_def world0_def request_loop.simps)

theorem request_no_retries_witness:
  "retries (client 0) \<le> 0 \<and>
   request (client 0) (always (status_only 503)) ''GET'' ''/v1/search?q=test'' None =
     (Inl (PyException ''Request failed after retries''), \<lparr>calls = 0, slept = []\<rparr>)"
  using request_no_retries[of "client 0" "always (status_only 503)" "''GET''"
      "''/v1/search?q=test''" None]
  by (simp add: client_def)

text \<open>C2, amended: with \<^verbatim>\<open>retries\<close> between 1 and 1025, when every attempt yields a status
  in [500,600) or a transport-level failure, the number of attempts equals \<^verbatim>\<open>retries\<close>,
  the sleeps are the backoff delays of the attempts before the last, and the error
  raised is the one observed on the last attempt.\<close>

theorem request_exhausts_retries:
  assumes "1 \<le> retries self" and "retries self \<le> 1025"
    and "\<forall>i. 0 < i \<and> int i \<le> retries self \<longrightarrow>
           retryable (net (build_request self method endpoint js) i)"
  shows "request self net method endpoint js =
           (Inl (observed_error (net (build_request self method endpoint js)
                                   (nat (retries self)))),
            \<lparr>calls = nat (retries self),
             slept = map delay_after [1..<nat (retries self)]\<rparr>)"
proof -
  define N where "N = build_request self method endpoint js"
  define k where "k = nat (retries self) - 1"
  have k: "int k < retries self" "k \<le> 1024" "Suc k = nat (retries self)"
    using assms(1,2) by (auto simp: k_def)
  have pre: "\<forall>i. 0 < i \<and> i \<le> k \<longrightarrow> retryable (net N i)"
    using assms(3) k by (auto simp: N_def)
  have last_r: "retryable (net N (Suc k))"
    using assms(3) k by (auto simp: N_def)
  have "\<not> int (Suc k) < retries self" using k by linarith
  from attempt_retryable_last[OF last_r this]
  have st: "attempt (retries self) (Suc k)
              (if k = 0 then None else Some (observed_error (net N k))) (net N (Suc k)) =
            (Some (observed_error (net N (Suc k))), Raise (observed_error (net N (Suc k))))"
    by simp
  have "request self net method endpoint js =
          request_loop (retries self) (net N) k
            (if k = 0 then None else Some (observed_error (net N k)))
            \<lparr>calls = k, slept = map delay_after [1..<Suc k]\<rparr>"
    unfolding request_def N_def[symmetric]
    by (rule loop_retryable_prefix[OF pre k(1) k(2)])
  also have "\<dots> = (Inl (observed_error (net N (Suc k))),
                   \<lparr>calls = Suc k, slept = map delay_after [1..<Suc k]\<rparr>)"
    using loop_step_raise[OF k(1), where net = "net N"
        and w = "\<lparr>calls = k, slept = map delay_after [1..<Suc k]\<rparr>"
        and le = "if k = 0 then None else Some (observed_error (net N k))"] st
    by simp
  finally show ?thesis by (simp add: k(3) N_def)
qed

theorem request_exhausts_retries_witness:
  "1 \<le> retries (client 2) \<and> retries (client 2) \<le> 1025 \<and>
   request (client 2) (replay [status_only 503, status_only 503]) ''GET''
       ''/v1/search?q=test'' None =
     (Inl (SolvrError (JStr ''API error: 503'') 503 JNull),
      \<lparr>calls = 2, slept = [1 / 10]\<rparr>)"
proof -
  let ?net = "replay [status_only 503, status_only 503]"
  have h1: "1 \<le> retries (client 2)" and h2: "retries (client 2) \<le> 1025"
    by (simp_all add: client_def)
  have h3: "\<forall>i. 0 < i \<and> int i \<le> retries (client 2) \<longrightarrow>
              retryable (?net (build_request (client 2) ''GET'' ''/v1/search?q=test'' None) i)"
  proof (intro allI impI)
    fix i :: nat
    assume "0 < i \<and> int i \<le> retries (client 2)"
    then have "i = 1 \<or> i = 2" by (auto simp: client_def)
    then show "retryable (?net (build_request (client 2) ''GET'' ''/v1/search?q=test'' None) i)"
      by (auto simp: replay_def status_only_def retryable_def)
  qed
  have n: "nat (retries (client 2)) = 2" by (simp add: client_def)
  have d: "map delay_after [Suc 0..<2] = [1 / 10]"
    by (simp add: delay_after_def upt_rec)
  have e: "observed_error (?net (build_request (client 2) ''GET'' ''/v1/search?q=test'' None) 2)
             = SolvrError (JStr ''API error: 503'') 503 JNull"
    by (simp add: replay_def status_only_def observed_error_def parse_error_body_def
        generic_message_def str_int_def str_nat.simps digit_def)
  from request_exhausts_retries[of "client 2" ?net "''GET''" "''/v1/search?q=test''" None,
      OF h1 h2 h3] h1 h2
  show ?thesis
    by (simp add: n d e)
qed

text \<open>C2 as stated fails for a client with \<^verbatim>\<open>retries = 0\<close>: every answer is a 503, yet the
  error raised is the generic exception, which no attempt observed; and with
  \<^verbatim>\<open>retries = -1\<close> the number of attempts, 0, is not the configured value.\<close>

theorem request_zero_retries_counterexample:
  "retryable (status_only 503) \<and>
   request (client 0) (always (status_only 503)) ''GET'' ''/v1/search?q=test'' None =
     (Inl (PyException ''Request failed after retries''), \<lparr>calls = 0, slept = []\<rparr>) \<and>
   PyException ''Request failed after retries'' \<noteq> observed_error (status_only 503) \<and>
   int (calls (snd (request (client (- 1)) (always (status_only 503)) ''GET''
                      ''/v1/search?q=test'' None))) \<noteq> retries (client (- 1))"
  by (simp add: retryable_def status_only_def observed_error_def client_def request_def
      world0_def request_loop.simps)


lemma delay_after_mono: "a \<le> b \<Longrightarrow> delay_after a \<le> delay_after b"
proof -
  assume "a \<le> b"
  then have "a - 1 \<le> b - 1" by simp
  then have "(2::rat) ^ (a - 1) \<le> 2 ^ (b - 1)"
    by (intro power_increasing) simp_all
  then have "(1 / 10 :: rat) * 2 ^ (a - 1) \<le> 1 / 10 * 2 ^ (b - 1)" by simp
  from min.mono[OF this order_refl[of "5::rat"]] show ?thesis
    by (simp only: delay_after_def)
qed

lemma delay_after_cap: "delay_after a \<le> 5"
  by (simp add: delay_after_def)

lemma backoff_sleep:
  assumes "retryable out" and "int a < n" and "1 \<le> a" and "a \<le> 1024"
  shows "snd (attempt n a le out) = Continue (min (1 / 10 * 2 ^ (a - 1)) 5)"
  using attempt_retryable_continue[OF assms(1,2,4), of le]
  by (simp add: delay_after_def)

lemma request_overflow:
  assumes "1026 \<le> retries self"
    and "\<forall>i. 0 < i \<and> i \<le> 1025 \<longrightarrow>
           retryable (net (build_request self method endpoint js) i)"
  shows "request self net method endpoint js =
           (Inl OverflowError, \<lparr>calls = 1025, slept = map delay_after [1..<1025]\<rparr>)"
proof -
  define N where "N = build_request self method endpoint js"
  have k: "int (1024::nat) < retries self" "(1024::nat) \<le> 1024"
    using assms(1) by auto
  have pre: "\<forall>i. 0 < i \<and> i \<le> 1024 \<longrightarrow> retryable (net N i)"
    using assms(2) by (auto simp: N_def)
  have last_r: "retryable (net N (Suc 1024))"
    using assms(2) by (auto simp: N_def)
  have "int (Suc 1024) < retries self" using assms(1) by simp
  from attempt_retryable_overflow[OF last_r this]
  have st: "attempt (retries self) (Suc 1024) (Some (observed_error (net N 1024)))
              (net N (Suc 1024)) =
            (Some (observed_error (net N (Suc 1024))), Raise OverflowError)"
    by simp
  have "request self net method endpoint js =
          request_loop (retries self) (net N) 1024
            (if (1024::nat) = 0 then None else Some (observed_error (net N 1024)))
            \<lparr>calls = 1024, slept = map delay_after [1..<Suc 1024]\<rparr>"
    unfolding request_def N_def[symmetric]
    by (rule loop_retryable_prefix[OF pre k(1) k(2)])
  also have "\<dots> = (Inl OverflowError,
                   \<lparr>calls = Suc 1024, slept = map delay_after [1..<Suc 1024]\<rparr>)"
    using loop_step_raise[OF k(1), where net = "net N"
        and w = "\<lparr>calls = 1024, slept = map delay_after [1..<Suc 1024]\<rparr>"
        and le = "Some (observed_error (net N 1024))"] st
    by simp
  finally show ?thesis by simp
qed

text \<open>C3, at the failing input: with \<^verbatim>\<open>retries = 1026\<close> and a 503 on every attempt, attempt
  1025 is not the last permitted one, yet no sleep follows it: computing its delay
  raises \<^verbatim>\<open>OverflowError\<close>, which leaves \<^verbatim>\<open>_request\<close> after 1025 calls and 1024 sleeps.\<close>

theorem backoff_overflow_run:
  "request (client 1026) (always (status_only 503)) ''GET'' ''/v1/search?q=test'' None =
     (Inl OverflowError, \<lparr>calls = 1025, slept = map delay_after [1..<1025]\<rparr>)"
  by (rule request_overflow) (simp_all add: client_def always_def status_only_def retryable_def)

lemma request_success_after_failures:
  assumes "1 \<le> k" and "int k \<le> retries self" and "k \<le> 1025"
    and "\<forall>i. 0 < i \<and> i < k \<longrightarrow> retryable (net (build_request self method endpoint js) i)"
    and "net (build_request self method endpoint js) k = Response r"
    and "200 \<le> status_code r" and "status_code r < 300" and "json_body r = Some j"
  shows "request self net method endpoint js =
           (Inr j, \<lparr>calls = k, slept = map delay_after [1..<k]\<rparr>)"
proof -
  define N where "N = build_request self method endpoint js"
  define m where "m = k - 1"
  have m: "int m < retries self" "m \<le> 1024" "Suc m = k"
    using assms(1,2,3) by (auto simp: m_def)
  have pre: "\<forall>i. 0 < i \<and> i \<le> m \<longrightarrow> retryable (net N i)"
    using assms(4) m by (auto simp: N_def)
  have st: "attempt (retries self) (Suc m)
              (if m = 0 then None else Some (observed_error (net N m))) (net N (Suc m)) =
            (if m = 0 then None else Some (observed_error (net N m)), Return j)"
    using attempt_success[OF assms(6,7,8)] assms(5) m(3) by (simp add: N_def)
  have "request self net method endpoint js =
          request_loop (retries self) (net N) m
            (if m = 0 then None else Some (observed_error (net N m)))
            \<lparr>calls = m, slept = map delay_after [1..<Suc m]\<rparr>"
    unfolding request_def N_def[symmetric]
    by (rule loop_retryable_prefix[OF pre m(1) m(2)])
  also have "\<dots> = (Inr j, \<lparr>calls = Suc m, slept = map delay_after [1..<Suc m]\<rparr>)"
    using loop_step_return[OF m(1), where net = "net N"
        and w = "\<lparr>calls = m, slept = map delay_after [1..<Suc m]\<rparr>"
        and le = "if m = 0 then None else Some (observed_error (net N m))"] st
    by simp
  finally show ?thesis by (simp add: m(3))
qed

lemma request_4xx_after_failures:
  assumes "1 \<le> k" and "int k \<le> retries self" and "k \<le> 1025"
    and "\<forall>i. 0 < i \<and> i < k \<longrightarrow> retryable (net (build_request self method endpoint js) i)"
    and "net (build_request self method endpoint js) k = Response r"
    and "400 \<le> status_code r" and "status_code r < 500"
  shows "request self net method endpoint js =
           (Inl (SolvrError (fst (parse_error_body (status_code r) (json_body r)))
                   (status_code r) (snd (parse_error_body (status_code r) (json_body r)))),
            \<lparr>calls = k, slept = map delay_after [1..<k]\<rparr>)"
proof -
  define N where "N = build_request self method endpoint js"
  define m where "m = k - 1"
  have m: "int m < retries self" "m \<le> 1024" "Suc m = k"
    using assms(1,2,3) by (auto simp: m_def)
  have pre: "\<forall>i. 0 < i \<and> i \<le> m \<longrightarrow> retryable (net N i)"
    using assms(4) m by (auto simp: N_def)
  have st: "attempt (retries self) (Suc m)
              (if m = 0 then None else Some (observed_error (net N m))) (net N (Suc m)) =
            (if m = 0 then None else Some (observed_error (net N m)),
             Raise (SolvrError (fst (parse_error_body (status_code r) (json_body r)))
                      (status_code r) (snd (parse_error_body (status_code r) (json_body r)))))"
    using attempt_4xx[OF assms(6,7)] assms(5) m(3) by (simp add: N_def)
  have "request self net method endpoint js =
          request_loop (retries self) (net N) m
            (if m = 0 then None else Some (observed_error (net N m)))
            \<lparr>calls = m, slept = map delay_after [1..<Suc m]\<rparr>"
    unfolding request_def N_def[symmetric]
    by (rule loop_retryable_prefix[OF pre m(1) m(2)])
  also have "\<dots> =
      (Inl (SolvrError (fst (parse_error_body (status_code r) (json_body r)))
              (status_code r) (snd (parse_error_body (status_code r) (json_body r)))),
       \<lparr>calls = Suc m, slept = map delay_after [1..<Suc m]\<rparr>)"
    using loop_step_raise[OF m(1), where net = "net N"
        and w = "\<lparr>calls = m, slept = map delay_after [1..<Suc m]\<rparr>"
        and le = "if m = 0 then None else Some (observed_error (net N m))"] st
    by simp
  finally show ?thesis by (simp add: m(3))
qed

lemma retry_then_success_example:
  "request (client 3) (replay [status_only 503, status_only 503, success]) ''GET''
       ''/v1/search?q=test'' None =
     (Inr empty_page, \<lparr>calls = 3, slept = [1 / 10, 1 / 5]\<rparr>)"
proof -
  let ?net = "replay [status_only 503, status_only 503, success]"
  let ?N = "build_request (client 3) ''GET'' ''/v1/search?q=test'' None"
  have h4: "\<forall>i. 0 < i \<and> i < 3 \<longrightarrow> retryable (?net ?N i)"
  proof (intro allI impI)
    fix i :: nat
    assume "0 < i \<and> i < 3"
    then have "i = 1 \<or> i = 2" by auto
    then show "retryable (?net ?N i)"
      by (auto simp: replay_def status_only_def retryable_def)
  qed
  have h5: "?net ?N 3 = Response \<lparr>status_code = 200, json_body = Some empty_page\<rparr>"
    by (simp add: replay_def success_def)
  have d: "map delay_after [Suc 0..<3] = [1 / 10, 1 / 5]"
    by (simp add: delay_after_def upt_rec)
  from request_success_after_failures[of 3 "client 3" ?net "''GET''" "''/v1/search?q=test''"
      None _ empty_page, OF _ _ _ h4 h5]
  show ?thesis by (simp add: client_def d)
qed

text \<open>C4, at the failing input: with \<^verbatim>\<open>retries = 1026\<close>, 1025 responses of 503 and then a
  200, \<^verbatim>\<open>_request\<close> does not return the body after 1026 attempts: it raises
  \<^verbatim>\<open>OverflowError\<close> after attempt 1025.\<close>

theorem success_after_overflow_run:
  "request (client 1026) (fails_then 1025 (status_only 503) success) ''GET''
       ''/v1/search?q=test'' None =
     (Inl OverflowError, \<lparr>calls = 1025, slept = map delay_after [1..<1025]\<rparr>)"
  by (rule request_overflow)
     (simp_all add: client_def fails_then_def status_only_def retryable_def)

lemma status_600_is_ok:
  "attempt n a le (Response \<lparr>status_code = 600, json_body = Some j\<rparr>) = (le, Return j)"
  by (simp add: attempt_def ok_def)

lemma continues_status_only:
  assumes "\<not> ok r" and "status_code r' = status_code r"
  shows "continues (snd (attempt n a le (Response r')))
           = continues (snd (attempt n a le (Response r)))"
  using assms
  by (auto simp: attempt_def ok_def Let_def case_prod_unfold split: sum.splits)

text \<open>C6: for a response that is not \<^verbatim>\<open>ok\<close> and whose body is not JSON or has no error
  object, the message is \<^verbatim>\<open>"API error: {status}"\<close> and the code is \<^verbatim>\<open>None\<close>; whether the
  pass ends in a retry (and with which sleep) is the same for any other body \<open>b\<close> of
  that response; and for a 4xx status the pass raises the error with the generic message.\<close>

theorem malformed_error_body:
  assumes "\<not> ok r" and "lacks_error_object (json_body r)"
  shows "parse_error_body (status_code r) (json_body r)
           = (JStr (''API error: '' @ str_int (status_code r)), JNull)
         \<and> observed_error (Response r)
             = SolvrError (JStr (''API error: '' @ str_int (status_code r))) (status_code r) JNull
         \<and> continues (snd (attempt n a le (Response r)))
             = continues (snd (attempt n a le (Response (r\<lparr>json_body := b\<rparr>))))
         \<and> (400 \<le> status_code r \<and> status_code r < 500 \<longrightarrow>
              snd (attempt n a le (Response r))
                = Raise (SolvrError (JStr (''API error: '' @ str_int (status_code r)))
                           (status_code r) JNull))"
proof -
  have p: "parse_error_body (status_code r) (json_body r)
             = (JStr (''API error: '' @ str_int (status_code r)), JNull)"
    using parse_error_body_generic[OF assms(2)] by (simp add: generic_message_def)
  have c: "continues (snd (attempt n a le (Response r)))
             = continues (snd (attempt n a le (Response (r\<lparr>json_body := b\<rparr>))))"
    by (rule continues_status_only[symmetric, OF assms(1)]) simp
  show ?thesis
    using p c attempt_4xx[of r n a le] by (simp add: observed_error_def)
qed

theorem malformed_error_body_witness:
  "\<not> ok not_found_page \<and> lacks_error_object (json_body not_found_page) \<and>
   parse_error_body 404 None = (JStr ''API error: 404'', JNull) \<and>
   continues (snd (attempt 3 1 None (Response not_found_page))) =
     continues (snd (attempt 3 1 None
        (Response (not_found_page\<lparr>json_body := Some (JStr ''oops'')\<rparr>)))) \<and>
   snd (attempt 3 1 None (Response not_found_page)) =
     Raise (SolvrError (JStr ''API error: 404'') 404 JNull)"
proof -
  have h1: "\<not> ok not_found_page" by (simp add: ok_def not_found_page_def)
  have h2: "lacks_error_object (json_body not_found_page)"
    by (simp add: lacks_error_object_def not_found_page_def)
  have s: "str_int 404 = ''404''"
    by (simp add: str_int_def str_nat.simps digit_def)
  from malformed_error_body[OF h1 h2, of 3 1 None "Some (JStr ''oops'')"] h1 h2
  show ?thesis
    by (simp add: not_found_page_def s attempt_def ok_def parse_error_body_def
        generic_message_def lacks_error_object_def)
qed

section \<open>Properties of \<^verbatim>\<open>Solvr.search\<close>\<close>

lemma join_amp_snoc: "xs \<noteq> [] \<Longrightarrow> join_amp (xs @ [y]) = join_amp xs @ ''&'' @ y"
  by (induction xs rule: join_amp.induct) auto

lemma urlencode_snoc:
  "ps \<noteq> [] \<Longrightarrow>
   urlencode (ps @ [(k, v)]) = urlencode ps @ ''&'' @ quote_plus k @ ''='' @ quote_plus (param_str v)"
  by (simp add: urlencode_def join_amp_snoc)

lemma always_safe_digit: "always_safe (digit d)"
  by (simp add: digit_def always_safe_def)

lemma quote_plus_safe: "\<forall>c \<in> set s. always_safe c \<Longrightarrow> quote_plus s = s"
  by (induction s) (auto simp: quote_plus_def quote_char_def)

lemma str_nat_safe: "\<forall>c \<in> set (str_nat n). always_safe c"
  by (induction n rule: str_nat.induct) (subst str_nat.simps, auto simp: always_safe_digit)

lemma quote_plus_str_int: "quote_plus (str_int i) = str_int i"
proof (rule quote_plus_safe)
  have "always_safe CHR ''-''" by (simp add: always_safe_def)
  then show "\<forall>c \<in> set (str_int i). always_safe c"
    using str_nat_safe by (auto simp: str_int_def)
qed

lemma search_params_nonempty: "search_params q ty st limit pg \<noteq> []"
  by (simp add: search_params_def)

lemma search_params_limit_zero:
  "search_params q ty st (Some 0) pg = search_params q ty st None pg"
  by (simp add: search_params_def)

lemma search_params_page_zero:
  "search_params q ty st limit (Some 0) = search_params q ty st limit None"
  by (simp add: search_params_def)

lemma search_params_type_all:
  "search_params q (Some (Str ''all'')) st limit pg = search_params q None st limit pg"
  by (simp add: search_params_def type_str_def)

lemma search_params_limit:
  "l \<noteq> 0 \<Longrightarrow>
   search_params q ty st (Some l) None = search_params q ty st None None @ [(''per_page'', JInt l)]"
  by (simp add: search_params_def)

lemma search_params_page:
  "p \<noteq> 0 \<Longrightarrow>
   search_params q ty st limit (Some p) = search_params q ty st limit None @ [(''page'', JInt p)]"
  by (simp add: search_params_def)

lemma quote_plus_per_page: "quote_plus ''per_page'' = ''per_page''"
  by (simp add: quote_plus_def quote_char_def always_safe_def)

lemma quote_plus_page: "quote_plus ''page'' = ''page''"
  by (simp add: quote_plus_def quote_char_def always_safe_def)

lemma search_endpoint_limit:
  "l \<noteq> 0 \<Longrightarrow>
   search_endpoint q ty st (Some l) None
     = search_endpoint q ty st None None @ ''&per_page='' @ str_int l"
  by (simp add: search_endpoint_def search_params_limit urlencode_snoc search_params_nonempty
      quote_plus_per_page quote_plus_str_int)

lemma search_endpoint_page:
  "p \<noteq> 0 \<Longrightarrow>
   search_endpoint q ty st limit (Some p)
     = search_endpoint q ty st limit None @ ''&page='' @ str_int p"
  by (simp add: search_endpoint_def search_params_page urlencode_snoc search_params_nonempty
      quote_plus_page quote_plus_str_int)

lemma search_endpoint_query_only:
  "search_endpoint q None None None None = ''/v1/search?q='' @ quote_plus q"
  by (simp add: search_endpoint_def search_params_def urlencode_def quote_plus_def
      quote_char_def always_safe_def)

text \<open>C10: in the endpoint \<^verbatim>\<open>Solvr.search\<close> requests, a limit of 0 and a page of 0 leave the
  query string as it is without them, the type \<^verbatim>\<open>"all"\<close> leaves it as it is without a type,
  and the three together give the query alone; a limit that is not 0 appends
  \<^verbatim>\<open>&per_page=\<close> and the number (never \<^verbatim>\<open>limit\<close>), a page that is not 0 appends
  \<^verbatim>\<open>&page=\<close> and the number; and the calls with a false argument make the same request
  as the calls without it.\<close>

theorem search_falsy_arguments:
  "search_endpoint q ty st (Some 0) pg = search_endpoint q ty st None pg
   \<and> search_endpoint q ty st limit (Some 0) = search_endpoint q ty st limit None
   \<and> search_endpoint q (Some (Str ''all'')) st limit pg = search_endpoint q None st limit pg
   \<and> search_endpoint q (Some (Str ''all'')) None (Some 0) (Some 0)
       = ''/v1/search?q='' @ quote_plus q
   \<and> (l \<noteq> 0 \<longrightarrow>
         search_endpoint q ty st (Some l) None
           = search_endpoint q ty st None None @ ''&per_page='' @ str_int l)
   \<and> (l \<noteq> 0 \<longrightarrow> search_endpoint q None None (Some l) (Some 0)
                    = ''/v1/search?q='' @ quote_plus q @ ''&per_page='' @ str_int l)
   \<and> (p \<noteq> 0 \<longrightarrow>
         search_endpoint q ty st limit (Some p)
           = search_endpoint q ty st limit None @ ''&page='' @ str_int p)
   \<and> search_request self net q ty st (Some 0) pg = search_request self net q ty st None pg
   \<and> search_request self net q ty st limit (Some 0) = search_request self net q ty st limit None
   \<and> search_request self net q (Some (Str ''all'')) st limit pg
       = search_request self net q None st limit pg"
proof -
  have a: "search_endpoint q ty st (Some 0) pg = search_endpoint q ty st None pg" for ty st pg
    by (simp add: search_endpoint_def search_params_limit_zero)
  have b: "search_endpoint q ty st limit (Some 0) = search_endpoint q ty st limit None"
    for ty st limit
    by (simp add: search_endpoint_def search_params_page_zero)
  have c: "search_endpoint q (Some (Str ''all'')) st limit pg = search_endpoint q None st limit pg"
    for st limit pg
    by (simp add: search_endpoint_def search_params_type_all)
  have d: "search_endpoint q (Some (Str ''all'')) None (Some 0) (Some 0)
             = ''/v1/search?q='' @ quote_plus q"
    by (simp add: search_endpoint_def search_params_def urlencode_def type_str_def
        quote_plus_def quote_char_def always_safe_def)
  have f: "l \<noteq> 0 \<longrightarrow>
             search_endpoint q ty st (Some l) None
               = search_endpoint q ty st None None @ ''&per_page='' @ str_int l" for ty st
    by (simp add: search_endpoint_def search_params_limit urlencode_snoc
        search_params_nonempty quote_plus_per_page quote_plus_str_int)
  have g: "p \<noteq> 0 \<longrightarrow>
             search_endpoint q ty st limit (Some p)
               = search_endpoint q ty st limit None @ ''&page='' @ str_int p"
    by (simp add: search_endpoint_def search_params_page urlencode_snoc
        search_params_nonempty quote_plus_page quote_plus_str_int)
  have e: "l \<noteq> 0 \<longrightarrow> search_endpoint q None None (Some l) (Some 0)
                    = ''/v1/search?q='' @ quote_plus q @ ''&per_page='' @ str_int l"
    using f[of None None] d by (simp add: a b c)
  show ?thesis
    using a b c d e f g by (simp add: search_request_def)
qed

theorem search_falsy_arguments_witness:
  "(5::int) \<noteq> 0 \<and> (2::int) \<noteq> 0
   \<and> search_endpoint ''test'' None None (Some 5) None = ''/v1/search?q=test&per_page=5''
   \<and> search_endpoint ''test'' None None (Some 5) (Some 0) = ''/v1/search?q=test&per_page=5''
   \<and> search_endpoint ''test'' None None (Some 5) (Some 2)
       = ''/v1/search?q=test&per_page=5&page=2''
   \<and> search_endpoint ''test'' (Some (Str ''all'')) None (Some 0) (Some 0) = ''/v1/search?q=test''"
proof -
  have s5: "str_int 5 = ''5''" and s2: "str_int 2 = ''2''"
    by (simp_all add: str_int_def str_nat.simps digit_def)
  have q: "quote_plus ''test'' = ''test''"
    by (simp add: quote_plus_def quote_char_def always_safe_def)
  have base: "search_endpoint ''test'' None None None None = ''/v1/search?q=test''"
    by (simp add: search_endpoint_query_only q)
  from search_falsy_arguments[of "''test''" None None None "Some 5" 5 2]
  show ?thesis by (simp add: s5 s2 q base)
qed

lemma search_endpoint_example:
  "search_endpoint ''test'' (Some (Str ''problem'')) None (Some 5) (Some 2)
     = ''/v1/search?q=test&type=problem&per_page=5&page=2''"
  by (simp add: search_endpoint_def search_params_def urlencode_def quote_plus_def
      quote_char_def always_safe_def type_truthy_def type_str_def type_param_def
      str_int_def str_nat.simps digit_def)

lemma search_endpoint_space:
  "search_endpoint ''test query'' None None None None = ''/v1/search?q=test+query''"
  by (simp add: search_endpoint_def search_params_def urlencode_def quote_plus_def
      quote_char_def always_safe_def)

section \<open>Properties of \<^verbatim>\<open>Solvr._parse_post\<close>\<close>

lemma and_then_Inr [simp]: "and_then (Inr x) f = f x"
  by (simp add: and_then_def)

lemma and_then_Inl [simp]: "and_then (Inl e) f = Inl e"
  by (simp add: and_then_def)

lemma subscript_present: "map_of kvs k = Some v \<Longrightarrow> subscript (JObj kvs) k = Inr v"
  by (simp add: subscript_def)

lemma dict_get_JObj: "dict_get (JObj kvs) k d = Inr (get_or kvs k d)"
  by (simp add: dict_get_def)

lemma get_or_present: "map_of kvs k = Some v \<Longrightarrow> get_or kvs k d = v"
  by (simp add: get_or_def)

lemma get_or_absent: "map_of kvs k = None \<Longrightarrow> get_or kvs k d = d"
  by (simp add: get_or_def)

lemma author_field_absent: "map_of kvs ''author'' = None \<Longrightarrow> author_field (JObj kvs) = Inr None"
  by (simp add: author_field_def dict_get_JObj get_or_absent)

lemma author_field_falsy:
  "map_of kvs ''author'' = Some v \<Longrightarrow> \<not> truthy v \<Longrightarrow> author_field (JObj kvs) = Inr None"
  by (simp add: author_field_def dict_get_JObj get_or_present)

lemma author_field_truthy:
  "map_of kvs ''author'' = Some v \<Longrightarrow> truthy v \<Longrightarrow> author_field (JObj kvs) = parse_author v"
  by (simp add: author_field_def dict_get_JObj get_or_present)

lemma list_field_absent:
  "map_of kvs key = None \<Longrightarrow> list_field parse (JObj kvs) key = Inr None"
  by (simp add: list_field_def dict_get_JObj get_or_absent)

lemma list_field_falsy:
  "map_of kvs key = Some v \<Longrightarrow> \<not> truthy v \<Longrightarrow> list_field parse (JObj kvs) key = Inr None"
  by (simp add: list_field_def dict_get_JObj get_or_present)

lemma list_field_list:
  "map_of kvs key = Some (JArr (x # xs)) \<Longrightarrow>
   list_field parse (JObj kvs) key = and_then (map_err parse (x # xs)) (\<lambda>ps. Inr (Some ps))"
  by (simp add: list_field_def dict_get_JObj get_or_present iterate_def)

lemma parse_author_well_formed:
  "truthy v \<Longrightarrow> well_formed_author v \<Longrightarrow> parse_author v = Inr (expected_author v)"
  by (cases v)
     (auto simp: well_formed_author_def expected_author_def parse_author_def has_keys_def
        subscript_def dict_get_def get_none_def get_or_def fields_def)

lemma author_field_well_formed:
  "well_formed_author (get_none a ''author'') \<Longrightarrow>
   author_field (JObj a) = Inr (expected_author (get_none a ''author''))"
  using parse_author_well_formed[of "get_none a ''author''"]
  by (simp add: author_field_def dict_get_JObj get_none_def expected_author_def)

lemma parse_approach_well_formed:
  "well_formed_approach v \<Longrightarrow> parse_approach v = Inr (expected_approach v)"
proof (cases v)
  case (JObj a)
  assume "well_formed_approach v"
  with JObj have k: "has_keys a [''id'', ''angle'']" and w: "well_formed_author (get_none a ''author'')"
    by (simp_all add: well_formed_approach_def)
  from k obtain i g where "map_of a ''id'' = Some i" "map_of a ''angle'' = Some g"
    by (auto simp: has_keys_def)
  then show ?thesis
    unfolding JObj parse_approach_def
    by (simp add: subscript_present dict_get_JObj author_field_well_formed[OF w]
        expected_approach_def fields_def get_none_def get_or_present)
qed (simp_all add: well_formed_approach_def)

lemma parse_answer_well_formed:
  "well_formed_answer v \<Longrightarrow> parse_answer v = Inr (expected_answer v)"
proof (cases v)
  case (JObj a)
  assume "well_formed_answer v"
  with JObj have k: "has_keys a [''id'', ''content'']" and w: "well_formed_author (get_none a ''author'')"
    by (simp_all add: well_formed_answer_def)
  from k obtain i g where "map_of a ''id'' = Some i" "map_of a ''content'' = Some g"
    by (auto simp: has_keys_def)
  then show ?thesis
    unfolding JObj parse_answer_def
    by (simp add: subscript_present dict_get_JObj author_field_well_formed[OF w]
        expected_answer_def fields_def get_none_def get_or_present)
qed (simp_all add: well_formed_answer_def)

lemma map_err_well_formed:
  "list_all good xs \<Longrightarrow> (\<And>x. good x \<Longrightarrow> parse x = Inr (g x)) \<Longrightarrow> map_err parse xs = Inr (map g xs)"
  by (induction xs) auto

lemma list_field_well_formed:
  assumes "well_formed_list good (get_none kvs key)"
    and "\<And>x. good x \<Longrightarrow> parse x = Inr (g x)"
  shows "list_field parse (JObj kvs) key = Inr (expected_list g (get_none kvs key))"
proof (cases "truthy (get_none kvs key)")
  case False
  then show ?thesis
    by (simp add: list_field_def dict_get_JObj get_none_def expected_list_def)
next
  case True
  then obtain v where v: "map_of kvs key = Some v" "truthy v"
    by (auto simp: get_none_def get_or_def split: option.splits)
  with assms(1) obtain xs where xs: "v = JArr xs" "list_all good xs"
    by (cases v) (auto simp: well_formed_list_def get_none_def get_or_def)
  from map_err_well_formed[OF xs(2) assms(2)] v xs show ?thesis
    by (simp add: list_field_def dict_get_JObj get_none_def get_or_def expected_list_def
        iterate_def)
qed

text \<open>C5, amended: for a JSON object with id, type, title and description, whose author is
  false or has id, type and display_name, and whose approaches and answers are false or
  lists of objects with their required keys (id and angle, id and content) and such an
  author, \<^verbatim>\<open>_parse_post\<close> returns a post whose plain fields are the input's values where
  present and the defaults otherwise: status \<^verbatim>\<open>"open"\<close>, the three counts 0, the two dates
  empty, tags, success criteria and accepted answer \<^verbatim>\<open>None\<close>. Author, approaches and
  answers are the records their values stand for, \<^verbatim>\<open>None\<close> when absent or false; comments
  is \<^verbatim>\<open>None\<close>.\<close>

theorem parse_post_fields:
  assumes "map_of kvs ''id'' = Some i" and "map_of kvs ''type'' = Some ty"
    and "map_of kvs ''title'' = Some ti" and "map_of kvs ''description'' = Some de"
    and "well_formed_author (get_none kvs ''author'')"
    and "well_formed_list well_formed_approach (get_none kvs ''approaches'')"
    and "well_formed_list well_formed_answer (get_none kvs ''answers'')"
  shows "parse_post (JObj kvs) =
           Inr \<lparr>po_id = i, po_type = ty, po_title = ti, po_description = de,
                po_status = (case map_of kvs ''status'' of Some v \<Rightarrow> v | None \<Rightarrow> JStr ''open''),
                po_upvotes = (case map_of kvs ''upvotes'' of Some v \<Rightarrow> v | None \<Rightarrow> JInt 0),
                po_downvotes = (case map_of kvs ''downvotes'' of Some v \<Rightarrow> v | None \<Rightarrow> JInt 0),
                po_view_count = (case map_of kvs ''view_count'' of Some v \<Rightarrow> v | None \<Rightarrow> JInt 0),
                po_created_at = (case map_of kvs ''created_at'' of Some v \<Rightarrow> v | None \<Rightarrow> JStr ''''),
                po_updated_at = (case map_of kvs ''updated_at'' of Some v \<Rightarrow> v | None \<Rightarrow> JStr ''''),
                po_tags = (case map_of kvs ''tags'' of Some v \<Rightarrow> v | None \<Rightarrow> JNull),
                po_author = expected_author (get_none kvs ''author''),
                po_success_criteria =
                  (case map_of kvs ''success_criteria'' of Some v \<Rightarrow> v | None \<Rightarrow> JNull),
                po_accepted_answer_id =
                  (case map_of kvs ''accepted_answer_id'' of Some v \<Rightarrow> v | None \<Rightarrow> JNull),
                po_approaches = expected_list expected_approach (get_none kvs ''approaches''),
                po_answers = expected_list expected_answer (get_none kvs ''answers''),
                po_comments = None\<rparr>
         \<and> (map_of kvs ''author'' = None \<longrightarrow> expected_author (get_none kvs ''author'') = None)
         \<and> (map_of kvs ''approaches'' = None \<longrightarrow>
               expected_list expected_approach (get_none kvs ''approaches'') = None)
         \<and> (map_of kvs ''answers'' = None \<longrightarrow>
               expected_list expected_answer (get_none kvs ''answers'') = None)"
proof -
  define au where "au = get_none kvs ''author''"
  have dg: "dict_get (JObj kvs) ''author'' JNull = Inr au"
    by (simp add: dict_get_def get_none_def au_def)
  have "well_formed_author au" using assms(5) by (simp add: au_def)
  then have "(if truthy au then parse_author au else Inr None) = Inr (expected_author au)"
    by (cases au)
       (auto simp: parse_author_def well_formed_author_def expected_author_def has_keys_def
          subscript_def dict_get_def get_none_def get_or_def fields_def
          split: if_splits)
  then have af: "author_field (JObj kvs) = Inr (expected_author (get_none kvs ''author''))"
    by (auto simp: author_field_def dg au_def[symmetric] split: if_splits)
  have "parse_post (JObj kvs) =
           Inr \<lparr>po_id = i, po_type = ty, po_title = ti, po_description = de,
                po_status = get_or kvs ''status'' (JStr ''open''),
                po_upvotes = get_or kvs ''upvotes'' (JInt 0),
                po_downvotes = get_or kvs ''downvotes'' (JInt 0),
                po_view_count = get_or kvs ''view_count'' (JInt 0),
                po_created_at = get_or kvs ''created_at'' (JStr ''''),
                po_updated_at = get_or kvs ''updated_at'' (JStr ''''),
                po_tags = get_or kvs ''tags'' JNull,
                po_author = expected_author (get_none kvs ''author''),
                po_success_criteria = get_or kvs ''success_criteria'' JNull,
                po_accepted_answer_id = get_or kvs ''accepted_answer_id'' JNull,
                po_approaches = expected_list expected_approach (get_none kvs ''approaches''),
                po_answers = expected_list expected_answer (get_none kvs ''answers''),
                po_comments = None\<rparr>"
    unfolding parse_post_def
    by (simp add: subscript_present assms(1-4) dict_get_JObj af
        list_field_well_formed[OF assms(6) parse_approach_well_formed]
        list_field_well_formed[OF assms(7) parse_answer_well_formed])
  then show ?thesis
    by (simp add: get_or_def get_none_def expected_author_def expected_list_def
        split: option.splits)
qed

theorem parse_post_fields_witness:
  "parse_post rich_post =
     Inr \<lparr>po_id = JStr ''post_123'', po_type = JStr ''problem'', po_title = JStr ''Test'',
          po_description = JStr ''Test description'', po_status = JStr ''solved'',
          po_upvotes = JInt 10, po_downvotes = JInt 0, po_view_count = JInt 0,
          po_created_at = JStr '''', po_updated_at = JStr '''',
          po_tags = JArr [JStr ''typescript'', JStr ''api''],
          po_author = Some \<lparr>au_id = JStr ''user_1'', au_type = JStr ''human'',
                            au_display_name = JStr ''Ada'', au_avatar_url = JNull\<rparr>,
          po_success_criteria = JNull, po_accepted_answer_id = JNull,
          po_approaches =
            Some [\<lparr>ap_id = JStr ''approach_1'', ap_post_id = JStr '''',
                   ap_angle = JStr ''Pool isolation'', ap_content = JStr '''',
                   ap_status = JStr ''proposed'', ap_upvotes = JInt 0, ap_downvotes = JInt 0,
                   ap_created_at = JStr '''', ap_updated_at = JStr '''', ap_method = JNull,
                   ap_assumptions = JNull,
                   ap_author = Some \<lparr>au_id = JStr ''user_1'', au_type = JStr ''human'',
                                     au_display_name = JStr ''Ada'', au_avatar_url = JNull\<rparr>\<rparr>],
          po_answers =
            Some [\<lparr>an_id = JStr ''answer_1'', an_post_id = JStr '''',
                   an_content = JStr ''Use errgroup'', an_is_accepted = JBool True,
                   an_upvotes = JInt 0, an_downvotes = JInt 0, an_created_at = JStr '''',
                   an_updated_at = JStr '''', an_author = None\<rparr>],
          po_comments = None\<rparr>"
proof -
  let ?kvs = "fields rich_post"
  have r: "rich_post = JObj ?kvs" by (simp add: rich_post_def fields_def)
  have h1: "map_of ?kvs ''id'' = Some (JStr ''post_123'')"
    and h2: "map_of ?kvs ''type'' = Some (JStr ''problem'')"
    and h3: "map_of ?kvs ''title'' = Some (JStr ''Test'')"
    and h4: "map_of ?kvs ''description'' = Some (JStr ''Test description'')"
    by (simp_all add: rich_post_def fields_def)
  have h5: "well_formed_author (get_none ?kvs ''author'')"
    by (simp add: rich_post_def fields_def get_none_def get_or_def well_formed_author_def
        ada_def has_keys_def)
  have h6: "well_formed_list well_formed_approach (get_none ?kvs ''approaches'')"
    by (simp add: rich_post_def fields_def get_none_def get_or_def well_formed_list_def
        well_formed_approach_def well_formed_author_def ada_def has_keys_def)
  have h7: "well_formed_list well_formed_answer (get_none ?kvs ''answers'')"
    by (simp add: rich_post_def fields_def get_none_def get_or_def well_formed_list_def
        well_formed_answer_def well_formed_author_def has_keys_def)
  from parse_post_fields[OF h1 h2 h3 h4 h5 h6 h7]
  have "parse_post (JObj ?kvs) = Inr
          \<lparr>po_id = JStr ''post_123'', po_type = JStr ''problem'', po_title = JStr ''Test'',
           po_description = JStr ''Test description'',
           po_status = (case map_of ?kvs ''status'' of Some v \<Rightarrow> v | None \<Rightarrow> JStr ''open''),
           po_upvotes = (case map_of ?kvs ''upvotes'' of Some v \<Rightarrow> v | None \<Rightarrow> JInt 0),
           po_downvotes = (case map_of ?kvs ''downvotes'' of Some v \<Rightarrow> v | None \<Rightarrow> JInt 0),
           po_view_count = (case map_of ?kvs ''view_count'' of Some v \<Rightarrow> v | None \<Rightarrow> JInt 0),
           po_created_at = (case map_of ?kvs ''created_at'' of Some v \<Rightarrow> v | None \<Rightarrow> JStr ''''),
           po_updated_at = (case map_of ?kvs ''updated_at'' of Some v \<Rightarrow> v | None \<Rightarrow> JStr ''''),
           po_tags = (case map_of ?kvs ''tags'' of Some v \<Rightarrow> v | None \<Rightarrow> JNull),
           po_author = expected_author (get_none ?kvs ''author''),
           po_success_criteria =
             (case map_of ?kvs ''success_criteria'' of Some v \<Rightarrow> v | None \<Rightarrow> JNull),
           po_accepted_answer_id =
             (case map_of ?kvs ''accepted_answer_id'' of Some v \<Rightarrow> v | None \<Rightarrow> JNull),
           po_approaches = expected_list expected_approach (get_none ?kvs ''approaches''),
           po_answers = expected_list expected_answer (get_none ?kvs ''answers''),
           po_comments = None\<rparr>"
    by blast
  then show ?thesis
    unfolding r[symmetric]
    by (simp add: rich_post_def fields_def get_none_def get_or_def expected_author_def
        expected_list_def expected_approach_def expected_answer_def ada_def)
qed

lemma parse_post_minimal_example:
  "parse_post minimal_post =
     Inr \<lparr>po_id = JStr ''post_123'', po_type = JStr ''problem'', po_title = JStr ''Test'',
          po_description = JStr ''Test description'', po_status = JStr ''open'',
          po_upvotes = JInt 0, po_downvotes = JInt 0, po_view_count = JInt 0,
          po_created_at = JStr [], po_updated_at = JStr [], po_tags = JNull,
          po_author = None, po_success_criteria = JNull, po_accepted_answer_id = JNull,
          po_approaches = None, po_answers = None, po_comments = None\<rparr>"
  by (simp add: minimal_post_def parse_post_def subscript_def dict_get_def get_or_def
      author_field_def list_field_def)

text \<open>C5 as stated fails: with the four required fields present and an author that has
  only an id, \<^verbatim>\<open>_parse_post\<close> returns no post; \<^verbatim>\<open>_parse_author\<close> raises \<^verbatim>\<open>KeyError\<close>.\<close>

theorem parse_post_partial_author_counterexample:
  "parse_post post_with_partial_author = Inl (KeyError ''type'')"
  by (simp add: post_with_partial_author_def parse_post_def subscript_def dict_get_def
      get_or_def author_field_def parse_author_def)

lemma parse_post_empty_approaches:
  "map_of kvs ''approaches'' = Some (JArr []) \<Longrightarrow>
   list_field parse_approach (JObj kvs) ''approaches'' = Inr None"
  using list_field_falsy[of kvs "''approaches''" "JArr []" parse_approach] by simp

lemma parse_post_partial_nested_author:
  "parse_post
     (JObj [(''id'', JStr ''post_123''), (''type'', JStr ''problem''),
            (''title'', JStr ''Test''), (''description'', JStr ''Test description''),
            (''approaches'',
               JArr [JObj [(''id'', JStr ''approach_1''), (''angle'', JStr ''Pool isolation''),
                           (''author'', JObj [(''id'', JStr ''user_1'')])]])])
     = Inl (KeyError ''type'')"
  by (simp add: parse_post_def subscript_def dict_get_def get_or_def author_field_def
      parse_author_def list_field_def iterate_def parse_approach_def)

section \<open>Properties of the provisioner\<close>

lemma get_client_ok: "fst (get_client h s) = Inr c \<Longrightarrow> get_client h s = (Inr c, s)"
  by (auto simp: get_client_def Let_def split: if_splits)

lemma servers_get_by_name_prints [simp]:
  "servers_get_by_name (prints ls s) name = servers_get_by_name s name"
  by (simp add: servers_get_by_name_def prints_def)

lemma servers_get_by_name_print [simp]:
  "servers_get_by_name (print l s) name = servers_get_by_name s name"
  by (simp add: servers_get_by_name_def print_def)

lemma cmd_provision_existing:
  assumes "fst (get_client h s) = Inr tok"
    and "servers_get_by_name s (arg_name a) = Some existing"
  shows "\<exists>banner. cmd_provision h a s =
           (Inr (),
            prints [CHECK @ '' Server '' @ [CHR 0x27] @ arg_name a @ [CHR 0x27]
                    @ '' already exists'',
                    ''  IP: '' @ srv_ip existing] (prints banner s))"
  using assms(2)
  by (simp add: cmd_provision_def get_client_ok[OF assms(1)] Let_def) blast

text \<open>C7: when \<^verbatim>\<open>get_client\<close> finds a token and a server of the requested name exists,
  \<^verbatim>\<open>cmd_provision\<close> returns normally, leaves the provider's servers and keys, the local
  files and the instance directories as they were, and only prints: a banner, then the
  line that the server already exists and the line with its address.\<close>

theorem provision_existing_server:
  assumes "fst (get_client h s) = Inr tok"
    and "servers_get_by_name s (arg_name a) = Some existing"
  shows "fst (cmd_provision h a s) = Inr ()
         \<and> servers (snd (cmd_provision h a s)) = servers s
         \<and> ssh_keys (snd (cmd_provision h a s)) = ssh_keys s
         \<and> files (snd (cmd_provision h a s)) = files s
         \<and> instances (snd (cmd_provision h a s)) = instances s
         \<and> (\<exists>banner. console (snd (cmd_provision h a s)) =
               console s @ banner
               @ [CHECK @ '' Server '' @ [CHR 0x27] @ arg_name a @ [CHR 0x27] @ '' already exists'',
                  ''  IP: '' @ srv_ip existing])"
proof -
  from cmd_provision_existing[OF assms] obtain banner where
    "cmd_provision h a s =
       (Inr (),
        prints [CHECK @ '' Server '' @ [CHR 0x27] @ arg_name a @ [CHR 0x27]
                @ '' already exists'',
                ''  IP: '' @ srv_ip existing] (prints banner s))"
    by blast
  then show ?thesis by (simp add: prints_def)
qed

theorem provision_existing_server_witness:
  "fst (get_client host0 system0) = Inr ''token''
   \<and> servers_get_by_name system0 (arg_name args0) = Some server0
   \<and> fst (cmd_provision host0 args0 system0) = Inr ()
   \<and> servers (snd (cmd_provision host0 args0 system0)) = [server0]
   \<and> ssh_keys (snd (cmd_provision host0 args0 system0)) = [key0]
   \<and> files (snd (cmd_provision host0 args0 system0)) = [(''/home/user/.ssh/solvr_node'', ''PRIVATE'')]
   \<and> instances (snd (cmd_provision host0 args0 system0)) = [(''node'', None)]
   \<and> last (console (snd (cmd_provision host0 args0 system0))) = ''  IP: 10.0.0.1''"
proof -
  have h1: "fst (get_client host0 system0) = Inr ''token''"
    by (simp add: get_client_def host0_def)
  have h2: "servers_get_by_name system0 (arg_name args0) = Some server0"
    by (simp add: servers_get_by_name_def system0_def args0_def server0_def)
  from provision_existing_server[OF h1 h2] h1 h2
  show ?thesis by (auto simp: system0_def server0_def)
qed

lemma destroy_confirmed_servers:
  "servers (destroy_confirmed name srv s) = filter (\<lambda>y. srv_id y \<noteq> srv_id srv) (servers s)"
  by (simp add: destroy_confirmed_def Let_def print_def servers_delete_def rmtree_def
      ssh_keys_delete_def split: option.splits)

lemma destroy_confirmed_instances:
  "instances (destroy_confirmed name srv s) = filter (\<lambda>(k, _). k \<noteq> name) (instances s)"
proof -
  have "map_of kvs name = None \<Longrightarrow> filter (\<lambda>(k, _). k \<noteq> name) kvs = kvs"
    for kvs :: "(string \<times> metadata option) list"
    by (induction kvs) (auto split: if_splits)
  then show ?thesis
    by (simp add: destroy_confirmed_def Let_def print_def servers_delete_def rmtree_def
        ssh_keys_delete_def split: option.splits)
qed

lemma destroy_confirmed_ssh_keys:
  "ssh_keys (destroy_confirmed name srv s) =
     (case ssh_keys_get_by_name s (''solvr-'' @ name) of
        Some k \<Rightarrow> filter (\<lambda>y. key_id y \<noteq> key_id k) (ssh_keys s)
      | None \<Rightarrow> ssh_keys s)"
  by (simp add: destroy_confirmed_def Let_def print_def servers_delete_def rmtree_def
      ssh_keys_delete_def ssh_keys_get_by_name_def split: option.splits)

lemma destroy_confirmed_files:
  "files (destroy_confirmed name srv s) = files s"
  by (simp add: destroy_confirmed_def Let_def print_def servers_delete_def rmtree_def
      ssh_keys_delete_def split: option.splits)

lemma cmd_destroy_confirmed:
  assumes "fst (get_client h s) = Inr tok"
    and "servers_get_by_name s (arg_name a) = Some srv"
    and "arg_yes a \<or> lower (stdin_line h) = ''y''"
  shows "\<exists>s1. cmd_destroy h a s = (Inr (), destroy_confirmed (arg_name a) srv s1)
              \<and> servers s1 = servers s \<and> ssh_keys s1 = ssh_keys s
              \<and> files s1 = files s \<and> instances s1 = instances s"
  using assms(2,3)
  by (auto simp: cmd_destroy_def get_client_ok[OF assms(1)] Let_def print_def)

lemma map_of_filter_key: "map_of (filter (\<lambda>(k, _). k \<noteq> name) kvs) name = None"
  by (induction kvs) auto

text \<open>C8: when \<^verbatim>\<open>get_client\<close> finds a token, the named server is found and the deletion is
  confirmed (by the flag or by answering \<^verbatim>\<open>y\<close>), \<^verbatim>\<open>cmd_destroy\<close> deletes that server at the
  provider, removes the instance's directory (a no-op when there is none), deletes
  the registered key named \<^verbatim>\<open>solvr-{name}\<close> when there is one, and leaves the local files.\<close>

theorem destroy_removes_resources:
  assumes "fst (get_client h s) = Inr tok"
    and "servers_get_by_name s (arg_name a) = Some srv"
    and "arg_yes a \<or> lower (stdin_line h) = ''y''"
  shows "fst (cmd_destroy h a s) = Inr ()
         \<and> servers (snd (cmd_destroy h a s)) = filter (\<lambda>y. srv_id y \<noteq> srv_id srv) (servers s)
         \<and> srv \<notin> set (servers (snd (cmd_destroy h a s)))
         \<and> instances (snd (cmd_destroy h a s))
             = filter (\<lambda>(k, _). k \<noteq> arg_name a) (instances s)
         \<and> map_of (instances (snd (cmd_destroy h a s))) (arg_name a) = None
         \<and> ssh_keys (snd (cmd_destroy h a s))
             = (case ssh_keys_get_by_name s (''solvr-'' @ arg_name a) of
                  Some k \<Rightarrow> filter (\<lambda>y. key_id y \<noteq> key_id k) (ssh_keys s)
                | None \<Rightarrow> ssh_keys s)
         \<and> (\<forall>k. ssh_keys_get_by_name s (''solvr-'' @ arg_name a) = Some k
                \<longrightarrow> k \<notin> set (ssh_keys (snd (cmd_destroy h a s))))
         \<and> files (snd (cmd_destroy h a s)) = files s"
proof -
  from cmd_destroy_confirmed[OF assms] obtain s1 where
    run: "cmd_destroy h a s = (Inr (), destroy_confirmed (arg_name a) srv s1)"
    and same: "servers s1 = servers s" "ssh_keys s1 = ssh_keys s" "files s1 = files s"
      "instances s1 = instances s"
    by blast
  have keys: "ssh_keys_get_by_name s1 n = ssh_keys_get_by_name s n" for n
    by (simp add: ssh_keys_get_by_name_def same)
  show ?thesis
    by (auto simp: run destroy_confirmed_servers destroy_confirmed_instances
        destroy_confirmed_ssh_keys destroy_confirmed_files same keys map_of_filter_key
        split: option.splits)
qed

theorem destroy_removes_resources_witness:
  "fst (get_client host0 system0) = Inr ''token''
   \<and> servers_get_by_name system0 (arg_name args0) = Some server0
   \<and> arg_yes args0
   \<and> fst (cmd_destroy host0 args0 system0) = Inr ()
   \<and> servers (snd (cmd_destroy host0 args0 system0)) = []
   \<and> instances (snd (cmd_destroy host0 args0 system0)) = []
   \<and> ssh_keys (snd (cmd_destroy host0 args0 system0)) = []
   \<and> files (snd (cmd_destroy host0 args0 system0)) = [(''/home/user/.ssh/solvr_node'', ''PRIVATE'')]"
proof -
  have h1: "fst (get_client host0 system0) = Inr ''token''"
    by (simp add: get_client_def host0_def)
  have h2: "servers_get_by_name system0 (arg_name args0) = Some server0"
    by (simp add: servers_get_by_name_def system0_def args0_def server0_def)
  have h3: "arg_yes args0 \<or> lower (stdin_line host0) = ''y''"
    by (simp add: args0_def)
  have k: "ssh_keys_get_by_name system0 (''solvr-'' @ arg_name args0) = Some key0"
    by (simp add: ssh_keys_get_by_name_def system0_def args0_def key0_def)
  from destroy_removes_resources[OF h1 h2 h3] h1 h2 k
  show ?thesis by (simp add: system0_def args0_def server0_def key0_def)
qed

lemma destroy_declined:
  "fst (get_client h s) = Inr tok \<Longrightarrow> servers_get_by_name s (arg_name a) = Some srv \<Longrightarrow>
   \<not> arg_yes a \<Longrightarrow> lower (stdin_line h) \<noteq> ''y'' \<Longrightarrow>
   servers (snd (cmd_destroy h a s)) = servers s
   \<and> ssh_keys (snd (cmd_destroy h a s)) = ssh_keys s
   \<and> instances (snd (cmd_destroy h a s)) = instances s"
  by (simp add: cmd_destroy_def get_client_ok Let_def print_def)

lemma provision_missing_token:
  "env_token h = None \<Longrightarrow> cli_token h = None \<Longrightarrow>
   fst (cmd_provision h a s) = Inl (SystemExit 1)"
  by (simp add: cmd_provision_def get_client_def or_default_def)

end
